theory Spec2Isabelle
  imports Complex_Main "HOL-Library.Log_Nat"
begin

section \<open>Python values used by the price monitor\<close>

text \<open>
  The exceptions that the modelled code can raise.  \<open>Web3ConnectionError\<close> and
  \<open>PreviousTransactionPending\<close> are the two exception classes imported from the
  transport module; the others are Python built-ins.  \<open>OtherError\<close> stands for any
  further failure of the transport (a revert, malformed arguments).
\<close>

datatype error =
    Web3ConnectionError
  | PreviousTransactionPending
  | TypeError
  | IndexError
  | ZeroDivisionError
  | OverflowError
  | ValueError
  | OtherError string

text \<open>
  A Python \<open>float\<close> is an IEEE 754 binary64 number.  A finite value is kept as the
  rational it denotes; the two zeros are one value \<open>Finite 0\<close>, which this program
  cannot tell apart (it never divides by a zero and never prints a sign that it reads
  back).  Every arithmetic result is the exact result rounded to the nearest double,
  ties to even.
\<close>

datatype pyfloat = Finite rat | PosInf | NegInf | NaN

definition round_half_even :: "rat \<Rightarrow> int" where
  "round_half_even q =
     (let f = \<lfloor>q\<rfloor>; d = q - of_int f
      in if d < 1 / 2 then f
         else if 1 / 2 < d then f + 1
         else if even f then f else f + 1)"

text \<open>The exponent \<open>e\<close> with \<open>2 ^ e \<le> |q| < 2 ^ (e + 1)\<close>, for \<open>q \<noteq> 0\<close>.\<close>

definition binary_exponent :: "rat \<Rightarrow> int" where
  "binary_exponent q =
     (let (a, b) = quotient_of \<bar>q\<bar>; d = bitlen a - bitlen b
      in if 2 powi d \<le> \<bar>q\<bar> then d else d - 1)"

text \<open>
  Rounding to binary64: 53 significant bits, least exponent \<open>-1022\<close> (below it the
  spacing stays \<open>2 ^ -1074\<close>, the subnormal range), overflow to an infinity from
  \<open>2 ^ 1024\<close> on.
\<close>

definition round_to_double :: "rat \<Rightarrow> pyfloat" where
  "round_to_double q =
     (if q = 0 then Finite 0
      else let e = max (binary_exponent q) (- 1022);
               u = 2 powi (e - 52);
               r = of_int (round_half_even (q / u)) * u
           in if 2 powi 1024 \<le> \<bar>r\<bar> then (if 0 < q then PosInf else NegInf)
              else Finite r)"

fun float_sub :: "pyfloat \<Rightarrow> pyfloat \<Rightarrow> pyfloat" where
  "float_sub NaN _ = NaN"
| "float_sub _ NaN = NaN"
| "float_sub PosInf PosInf = NaN"
| "float_sub NegInf NegInf = NaN"
| "float_sub PosInf _ = PosInf"
| "float_sub NegInf _ = NegInf"
| "float_sub (Finite a) PosInf = NegInf"
| "float_sub (Finite a) NegInf = PosInf"
| "float_sub (Finite a) (Finite b) = round_to_double (a - b)"

fun float_abs :: "pyfloat \<Rightarrow> pyfloat" where
  "float_abs (Finite a) = Finite \<bar>a\<bar>"
| "float_abs PosInf = PosInf"
| "float_abs NegInf = PosInf"
| "float_abs NaN = NaN"

fun float_mul :: "pyfloat \<Rightarrow> pyfloat \<Rightarrow> pyfloat" where
  "float_mul NaN _ = NaN"
| "float_mul _ NaN = NaN"
| "float_mul (Finite a) (Finite b) = round_to_double (a * b)"
| "float_mul (Finite a) PosInf = (if a = 0 then NaN else if 0 < a then PosInf else NegInf)"
| "float_mul (Finite a) NegInf = (if a = 0 then NaN else if 0 < a then NegInf else PosInf)"
| "float_mul PosInf (Finite b) = (if b = 0 then NaN else if 0 < b then PosInf else NegInf)"
| "float_mul NegInf (Finite b) = (if b = 0 then NaN else if 0 < b then NegInf else PosInf)"
| "float_mul PosInf PosInf = PosInf"
| "float_mul NegInf NegInf = PosInf"
| "float_mul PosInf NegInf = NegInf"
| "float_mul NegInf PosInf = NegInf"

text \<open>\<open>a > b\<close> on floats: false as soon as one side is a NaN.\<close>

fun float_gt :: "pyfloat \<Rightarrow> pyfloat \<Rightarrow> bool" where
  "float_gt NaN _ = False"
| "float_gt _ NaN = False"
| "float_gt (Finite a) (Finite b) = (b < a)"
| "float_gt PosInf PosInf = False"
| "float_gt PosInf _ = True"
| "float_gt NegInf _ = False"
| "float_gt (Finite a) PosInf = False"
| "float_gt (Finite a) NegInf = True"

text \<open>
  \<open>a / b\<close> on floats.  Python tests the divisor first and raises
  \<open>ZeroDivisionError\<close> for a zero divisor, whatever the dividend is.
\<close>

fun py_truediv :: "pyfloat \<Rightarrow> pyfloat \<Rightarrow> error + pyfloat" where
  "py_truediv a (Finite b) =
     (if b = 0 then Inl ZeroDivisionError
      else case a of
             Finite x \<Rightarrow> Inr (round_to_double (x / b))
           | PosInf \<Rightarrow> Inr (if 0 < b then PosInf else NegInf)
           | NegInf \<Rightarrow> Inr (if 0 < b then NegInf else PosInf)
           | NaN \<Rightarrow> Inr NaN)"
| "py_truediv a NaN = Inr NaN"
| "py_truediv (Finite x) _ = Inr (Finite 0)"
| "py_truediv _ _ = Inr NaN"

text \<open>
  \<open>a / b\<close> on two \<open>int\<close>s is the correctly rounded quotient, and raises
  \<open>OverflowError\<close> where that is no finite double.  An \<open>int\<close> operand of a float
  operation is converted the same way.
\<close>

definition int_truediv :: "int \<Rightarrow> int \<Rightarrow> error + pyfloat" where
  "int_truediv a b =
     (if b = 0 then Inl ZeroDivisionError
      else case round_to_double (of_int a / of_int b) of
             Finite r \<Rightarrow> Inr (Finite r)
           | _ \<Rightarrow> Inl OverflowError)"

definition int_to_float :: "int \<Rightarrow> error + pyfloat" where
  "int_to_float n =
     (case round_to_double (of_int n) of
        Finite r \<Rightarrow> Inr (Finite r)
      | _ \<Rightarrow> Inl OverflowError)"

definition float_mul_int :: "pyfloat \<Rightarrow> int \<Rightarrow> error + pyfloat" where
  "float_mul_int x n =
     (case int_to_float n of Inl e \<Rightarrow> Inl e | Inr y \<Rightarrow> Inr (float_mul x y))"

text \<open>\<open>round(x)\<close> with one argument: the nearest \<open>int\<close>, ties to even.\<close>

fun py_round :: "pyfloat \<Rightarrow> error + int" where
  "py_round (Finite a) = Inr (round_half_even a)"
| "py_round NaN = Inl ValueError"
| "py_round _ = Inl OverflowError"

text \<open>
  A price or a rate as the code receives it: \<open>None\<close> or a float.  \<open>py_eq_zero\<close> is
  the test \<open>x == 0\<close> and \<open>truthy\<close> the test \<open>if x:\<close>; \<open>None\<close> fails both, and a NaN
  is not zero, so it is truthy.
\<close>

type_synonym pyvalue = "pyfloat option"

fun py_eq_zero :: "pyvalue \<Rightarrow> bool" where
  "py_eq_zero (Some (Finite a)) = (a = 0)"
| "py_eq_zero _ = False"

fun truthy :: "pyvalue \<Rightarrow> bool" where
  "truthy None = False"
| "truthy (Some (Finite a)) = (a \<noteq> 0)"
| "truthy (Some _) = True"

text \<open>
  The format specification \<open><10.7f\<close> of the log line accepts every float and raises
  \<open>TypeError\<close> on \<open>None\<close>.  The f-string is built before \<open>log.debug\<close> is called, so
  the exception does not depend on the logging level.
\<close>

fun format_f :: "pyvalue \<Rightarrow> error + unit" where
  "format_f None = Inl TypeError"
| "format_f (Some _) = Inr ()"

text \<open>
  The operators the code applies to prices and rates.  An operand \<open>None\<close> raises
  \<open>TypeError\<close>.
\<close>

fun py_sub :: "pyvalue \<Rightarrow> pyvalue \<Rightarrow> error + pyfloat" where
  "py_sub (Some a) (Some b) = Inr (float_sub a b)"
| "py_sub _ _ = Inl TypeError"

fun py_div :: "pyfloat \<Rightarrow> pyvalue \<Rightarrow> error + pyfloat" where
  "py_div a (Some b) = py_truediv a b"
| "py_div a None = Inl TypeError"

fun py_mul_int :: "pyvalue \<Rightarrow> int \<Rightarrow> error + pyfloat" where
  "py_mul_int (Some a) n = float_mul_int a n"
| "py_mul_int None n = Inl TypeError"

section \<open>Data model\<close>

text \<open>
  A coin and a market carry the attributes that the code reads: \<open>coin.symbol\<close>,
  \<open>coin.address\<close>, \<open>coin.volatility\<close> and \<open>market.symbol\<close>.  The price data is a
  sequence of pairs \<open>((coin, market), price)\<close>, where a price is a float or \<open>None\<close>.
  The event loop that the coroutines pass on, and the log output, are left out.
\<close>

record coin =
  symbol :: string
  address :: string
  volatility :: pyfloat

record market =
  market_symbol :: string

type_synonym pair = "coin \<times> market"

type_synonym coin_price = "pair \<times> pyvalue"

record config =
  market :: market
  coins :: "coin list"

type_synonym receipt = string

text \<open>
  The transport, of which the code uses two operations.  A read returns the sequence of
  the contract function's return values; a write returns the transaction's receipt.
  Both take the name of the contract function and its arguments.
\<close>

record web3_connector =
  call_local_function :: "string \<Rightarrow> string list \<Rightarrow> error + int list"
  call_remote_function :: "string \<Rightarrow> string list \<times> int list \<Rightarrow> error + receipt"

text \<open>
  The updater's state: its counter \<open>_updates_requested\<close>, and the write calls that have
  reached the transport so far, oldest first.
\<close>

record updater =
  updates_requested :: int
  remote_calls :: "(string \<times> string list \<times> int list) list"

section \<open>ContractRateArgumentsConverter\<close>

definition CHANGE_FACTOR :: int where
  "CHANGE_FACTOR = 10 ^ 18"

definition convert_rate_from_contract_units :: "int \<Rightarrow> error + pyfloat" where
  "convert_rate_from_contract_units rate_from_contract =
     int_truediv rate_from_contract CHANGE_FACTOR"

definition convert_price_to_contract_units :: "pyvalue \<Rightarrow> error + int" where
  "convert_price_to_contract_units price =
     (case py_mul_int price CHANGE_FACTOR of
        Inl e \<Rightarrow> Inl e
      | Inr x \<Rightarrow> py_round x)"

definition format_coin_for_getter :: "coin \<Rightarrow> string list" where
  "format_coin_for_getter c = [address c]"

text \<open>
  The loop appends to \<open>sources\<close> and \<open>rates\<close>; the model returns both lists, or the
  exception of the first conversion that fails.
\<close>

fun format_coin_prices_for_setter :: "coin_price list \<Rightarrow> error + string list \<times> int list" where
  "format_coin_prices_for_setter [] = Inr ([], [])"
| "format_coin_prices_for_setter (((c, m), price) # coin_price_data) =
     (if truthy price then
        (case convert_price_to_contract_units price of
           Inl e \<Rightarrow> Inl e
         | Inr r \<Rightarrow>
             (case format_coin_prices_for_setter coin_price_data of
                Inl e \<Rightarrow> Inl e
              | Inr (sources, rates) \<Rightarrow> Inr (address c # sources, r # rates)))
      else format_coin_prices_for_setter coin_price_data)"

section \<open>SanityContractUpdater\<close>

definition SET_RATES_FUNCTION_NAME :: string where
  "SET_RATES_FUNCTION_NAME = ''setSanityRates''"

definition GET_RATE_FUNCTION_NAME :: string where
  "GET_RATE_FUNCTION_NAME = ''tokenRate''"

text \<open>The lookup that turns a \<open>KeyError\<close> into \<open>None\<close>.\<close>

definition get_previous_rate :: "coin \<Rightarrow> market \<Rightarrow> (pair \<rightharpoonup> pyfloat) \<Rightarrow> pyvalue" where
  "get_previous_rate c m rates =
     (case rates (c, m) of Some r \<Rightarrow> Some r | None \<Rightarrow> None)"

text \<open>
  \<open>current_change\<close> is \<open>1\<close> on the branch of a zero previous rate.  After either
  branch the log line formats the previous rate, the current rate, the change and the
  threshold.
\<close>

definition should_update_price :: "coin \<Rightarrow> market \<Rightarrow> pyvalue \<Rightarrow> pyvalue \<Rightarrow> error + bool" where
  "should_update_price c m previous_rate current_rate =
     (case (if py_eq_zero previous_rate then Inr (Finite 1, True)
            else case py_sub current_rate previous_rate of
                   Inl e \<Rightarrow> Inl e
                 | Inr d \<Rightarrow>
                     (case py_div (float_abs d) previous_rate of
                        Inl e \<Rightarrow> Inl e
                      | Inr current_change \<Rightarrow>
                          Inr (current_change, float_gt current_change (volatility c)))) of
        Inl e \<Rightarrow> Inl e
      | Inr (current_change, should_update) \<Rightarrow>
          (case format_f previous_rate of
             Inl e \<Rightarrow> Inl e
           | Inr _ \<Rightarrow>
               (case format_f current_rate of
                  Inl e \<Rightarrow> Inl e
                | Inr _ \<Rightarrow> Inr should_update)))"

fun prepare_rates_for_update :: "(pair \<rightharpoonup> pyfloat) \<Rightarrow> coin_price list \<Rightarrow> error + coin_price list" where
  "prepare_rates_for_update previous_rates [] = Inr []"
| "prepare_rates_for_update previous_rates (((c, m), price) # new_rates) =
     (case should_update_price c m (get_previous_rate c m previous_rates) price of
        Inl e \<Rightarrow> Inl e
      | Inr should_update \<Rightarrow>
          (case prepare_rates_for_update previous_rates new_rates of
             Inl e \<Rightarrow> Inl e
           | Inr updates \<Rightarrow>
               Inr (if should_update then ((c, m), price) # updates else updates)))"

text \<open>
  The handler of \<open>Web3ConnectionError\<close> logs a warning and raises the exception again;
  every other exception leaves \<open>get_rate\<close> as it is.  \<open>local_function_response[0]\<close>
  raises \<open>IndexError\<close> on an empty response.
\<close>

definition get_rate :: "web3_connector \<Rightarrow> coin \<Rightarrow> error + pyfloat" where
  "get_rate web3 c =
     (case call_local_function web3 GET_RATE_FUNCTION_NAME (format_coin_for_getter c) of
        Inl Web3ConnectionError \<Rightarrow> Inl Web3ConnectionError
      | Inl e \<Rightarrow> Inl e
      | Inr local_function_response \<Rightarrow>
          (case local_function_response of
             [] \<Rightarrow> Inl IndexError
           | rate_from_contract # _ \<Rightarrow> convert_rate_from_contract_units rate_from_contract))"

definition get_pair_price_future :: "web3_connector \<Rightarrow> config \<Rightarrow> coin \<Rightarrow> error + pair \<times> pyfloat" where
  "get_pair_price_future web3 cfg c =
     (case get_rate web3 c of
        Inl e \<Rightarrow> Inl e
      | Inr rate \<Rightarrow> Inr ((c, market cfg), rate))"

text \<open>
  \<open>asyncio.gather\<close> without \<open>return_exceptions\<close>: the results in the order of the
  awaitables when all of them succeed, and otherwise an exception raised by one of them.
  Which one, when several fail, depends on the order of completion; the model takes the
  first in the order of the list.
\<close>

fun gather :: "(error + 'a) list \<Rightarrow> error + 'a list" where
  "gather [] = Inr []"
| "gather (Inl e # futures) = Inl e"
| "gather (Inr x # futures) =
     (case gather futures of Inl e \<Rightarrow> Inl e | Inr xs \<Rightarrow> Inr (x # xs))"

text \<open>The dict comprehension: a later entry for the same key replaces an earlier one.\<close>

definition get_previous_rates :: "web3_connector \<Rightarrow> config \<Rightarrow> error + (pair \<rightharpoonup> pyfloat)" where
  "get_previous_rates web3 cfg =
     (case gather (map (get_pair_price_future web3 cfg) (coins cfg)) of
        Inl e \<Rightarrow> Inl e
      | Inr previous_rates \<Rightarrow> Inr (map_of (rev previous_rates)))"

text \<open>
  The arguments of the call are evaluated first, so an exception of the converter
  leaves the transport untouched.
\<close>

definition set_rates :: "web3_connector \<Rightarrow> updater \<Rightarrow> coin_price list \<Rightarrow> (error + receipt) \<times> updater" where
  "set_rates web3 s coin_price_data =
     (case format_coin_prices_for_setter coin_price_data of
        Inl e \<Rightarrow> (Inl e, s)
      | Inr eth_args \<Rightarrow>
          (call_remote_function web3 SET_RATES_FUNCTION_NAME eth_args,
           s\<lparr>remote_calls := remote_calls s @ [(SET_RATES_FUNCTION_NAME, eth_args)]\<rparr>))"

text \<open>
  The result is the receipt of the write, or \<open>None\<close>; an exception other than
  \<open>PreviousTransactionPending\<close> leaves \<open>update_prices\<close>.
\<close>

definition update_prices ::
  "web3_connector \<Rightarrow> config \<Rightarrow> updater \<Rightarrow> coin_price list \<Rightarrow> bool \<Rightarrow> (error + receipt option) \<times> updater" where
  "update_prices web3 cfg s coin_price_data force =
     (case get_previous_rates web3 cfg of
        Inl e \<Rightarrow> (Inl e, s)
      | Inr previous_rates \<Rightarrow>
          (case (if force then Inr coin_price_data
                 else prepare_rates_for_update previous_rates coin_price_data) of
             Inl e \<Rightarrow> (Inl e, s)
           | Inr rates_for_update \<Rightarrow>
               if rates_for_update \<noteq> [] then
                 (case set_rates web3 s rates_for_update of
                    (Inr rs, s') \<Rightarrow>
                      (Inr (Some rs), s'\<lparr>updates_requested := updates_requested s' + 1\<rparr>)
                  | (Inl PreviousTransactionPending, s') \<Rightarrow> (Inr None, s')
                  | (Inl e, s') \<Rightarrow> (Inl e, s'))
               else (Inr None, s)))"

section \<open>Monitor actions\<close>

text \<open>
  \<open>PrintValuesMonitor.act\<close> formats every price that is not \<open>None\<close> with the float
  format \<open>10.5\<close>, which accepts every float, and prints one line; it raises nothing and
  returns \<open>None\<close>.  The printed line is no part of the state.
\<close>

definition PrintValuesMonitor_act :: "coin_price list \<Rightarrow> error + unit" where
  "PrintValuesMonitor_act data = Inr ()"

text \<open>
  \<open>ContractUpdaterMonitor.act\<close> awaits the print monitor and then the updater, with the
  monitor's \<open>force\<close> flag.  It has no \<open>return\<close>: the result of \<open>update_prices\<close> is
  dropped, and only an exception of it leaves \<open>act\<close>.
  \<open>ContractUpdaterMonitorForce\<close> is the same monitor constructed with \<open>force=True\<close>.
\<close>

definition ContractUpdaterMonitor_act ::
  "bool \<Rightarrow> web3_connector \<Rightarrow> config \<Rightarrow> updater \<Rightarrow> coin_price list \<Rightarrow> (error + unit) \<times> updater" where
  "ContractUpdaterMonitor_act force web3 cfg s data =
     (case PrintValuesMonitor_act data of
        Inl e \<Rightarrow> (Inl e, s)
      | Inr _ \<Rightarrow>
          (case update_prices web3 cfg s data force of
             (Inl e, s') \<Rightarrow> (Inl e, s')
           | (Inr rs, s') \<Rightarrow> (Inr (), s')))"

definition ContractUpdaterMonitorForce_act ::
  "web3_connector \<Rightarrow> config \<Rightarrow> updater \<Rightarrow> coin_price list \<Rightarrow> (error + unit) \<times> updater" where
  "ContractUpdaterMonitorForce_act = ContractUpdaterMonitor_act True"

section \<open>Inputs on which the decision step returns\<close>

text \<open>
  Every observation carries a number and its pair has a rate in the map.  On these inputs
  \<open>prepare_rates_for_update\<close> returns a batch, and on all others it raises
  \<open>TypeError\<close>.
\<close>

definition observations_usable :: "(pair \<rightharpoonup> pyfloat) \<Rightarrow> coin_price list \<Rightarrow> bool" where
  "observations_usable previous_rates new_rates =
     list_all (\<lambda>(pair, price). price \<noteq> None \<and> previous_rates pair \<noteq> None) new_rates"

text \<open>
  The observations that the serialization keeps: those whose price passes \<open>if price:\<close>.
\<close>

definition included :: "coin_price list \<Rightarrow> coin_price list" where
  "included coin_price_data = filter (\<lambda>(pair, price). truthy price) coin_price_data"

text \<open>
  The decision step selects no observation: \<open>_should_update_price\<close> returns \<open>False\<close>
  for every one of them.
\<close>

definition none_selected :: "(pair \<rightharpoonup> pyfloat) \<Rightarrow> coin_price list \<Rightarrow> bool" where
  "none_selected previous_rates new_rates =
     list_all (\<lambda>((c, m), price).
        should_update_price c m (previous_rates (c, m)) price = Inr False) new_rates"

text \<open>The value that \<open>update_prices\<close> binds to \<open>rates_for_update\<close>.\<close>

definition decided_batch ::
  "(pair \<rightharpoonup> pyfloat) \<Rightarrow> coin_price list \<Rightarrow> bool \<Rightarrow> error + coin_price list" where
  "decided_batch previous_rates coin_price_data force =
     (if force then Inr coin_price_data
      else prepare_rates_for_update previous_rates coin_price_data)"

text \<open>
  The round trip of a rate: from chain units to a price and back to chain units.
\<close>

definition contract_units_round_trip :: "int \<Rightarrow> error + int" where
  "contract_units_round_trip x =
     (case convert_rate_from_contract_units x of
        Inl e \<Rightarrow> Inl e
      | Inr price \<Rightarrow> convert_price_to_contract_units (Some price))"

section \<open>Fixtures\<close>

text \<open>
  A coin with the threshold \<open>0.05\<close> (the double nearest to it), a second coin, the
  market, and three transports: one whose reads return a given stored rate and whose
  writes succeed, one whose writes meet a pending transaction, and one whose read of a
  given address fails.
\<close>

definition OMG :: coin where
  "OMG = \<lparr>symbol = ''OMG'', address = ''0xd26114cd'',
           volatility = Finite (3602879701896397 / 72057594037927936)\<rparr>"

definition KNC :: coin where
  "KNC = \<lparr>symbol = ''KNC'', address = ''0xdd974d5c'',
           volatility = Finite (3602879701896397 / 72057594037927936)\<rparr>"

definition ETH :: market where
  "ETH = \<lparr>market_symbol = ''ETH''\<rparr>"

definition web3_accepting :: "int \<Rightarrow> web3_connector" where
  "web3_accepting stored_rate =
     \<lparr>call_local_function = (\<lambda>function_name eth_args. Inr [stored_rate]),
      call_remote_function = (\<lambda>function_name eth_args. Inr ''0xreceipt'')\<rparr>"

definition web3_pending :: web3_connector where
  "web3_pending =
     \<lparr>call_local_function = (\<lambda>function_name eth_args. Inr [0]),
      call_remote_function = (\<lambda>function_name eth_args. Inl PreviousTransactionPending)\<rparr>"

definition web3_unreachable :: "string \<Rightarrow> web3_connector" where
  "web3_unreachable a =
     \<lparr>call_local_function =
        (\<lambda>function_name eth_args. if eth_args = [a] then Inl Web3ConnectionError else Inr [0]),
      call_remote_function = (\<lambda>function_name eth_args. Inr ''0xreceipt'')\<rparr>"

definition config_omg :: config where
  "config_omg = \<lparr>market = ETH, coins = [OMG]\<rparr>"

definition config_omg_knc :: config where
  "config_omg_knc = \<lparr>market = ETH, coins = [OMG, KNC]\<rparr>"

definition fresh_updater :: updater where
  "fresh_updater = \<lparr>updates_requested = 0, remote_calls = []\<rparr>"

section \<open>Rounding to the nearest double\<close>

lemma bitlen_powi_bounds:
  assumes "0 < a"
  shows "(2::rat) powi (bitlen a - 1) \<le> of_int a" and "of_int a < (2::rat) powi (bitlen a)"
proof -
  from bitlen_bounds [OF assms]
  have lo: "2 ^ nat (bitlen a - 1) \<le> a" and hi: "a < 2 ^ nat (bitlen a)" by simp_all
  have pos: "1 \<le> bitlen a" using assms by (simp add: bitlen_alt_def)
  have "(of_int (2 ^ nat (bitlen a - 1)) :: rat) \<le> of_int a"
    using lo by (simp only: of_int_le_iff)
  then show "(2::rat) powi (bitlen a - 1) \<le> of_int a"
    using pos by (simp add: power_int_nonneg_exp)
  have "(of_int a :: rat) < of_int (2 ^ nat (bitlen a))"
    using hi by (simp only: of_int_less_iff)
  then show "of_int a < (2::rat) powi (bitlen a)"
    using pos by (simp add: power_int_nonneg_exp)
qed

lemma binary_exponent_bounds:
  assumes "q \<noteq> 0"
  shows "2 powi (binary_exponent q) \<le> \<bar>q\<bar>" and "\<bar>q\<bar> < 2 powi (binary_exponent q + 1)"
proof -
  obtain a b where ab: "quotient_of \<bar>q\<bar> = (a, b)" by (cases "quotient_of \<bar>q\<bar>")
  have b: "0 < b" using ab by (rule quotient_of_denom_pos)
  have q: "\<bar>q\<bar> = of_int a / of_int b" using ab by (rule quotient_of_div)
  have "0 < \<bar>q\<bar>" using assms by simp
  then have a: "0 < a" using b q by (simp add: zero_less_divide_iff)
  let ?d = "bitlen a - bitlen b"
  have "of_int a / of_int b < (2::rat) powi (bitlen a) / 2 powi (bitlen b - 1)"
    using bitlen_powi_bounds [OF a] bitlen_powi_bounds [OF b] a b
    by (intro frac_less) simp_all
  also have "\<dots> = 2 powi (bitlen a - (bitlen b - 1))"
    by (rule power_int_diff [symmetric]) simp
  also have "bitlen a - (bitlen b - 1) = ?d + 1" by simp
  finally have hi: "\<bar>q\<bar> < 2 powi (?d + 1)" using q by simp
  have "(2::rat) powi (bitlen a - 1) / 2 powi (bitlen b) \<le> of_int a / of_int b"
    using bitlen_powi_bounds [OF a] bitlen_powi_bounds [OF b] a b
    by (intro frac_le) simp_all
  moreover have "(2::rat) powi (bitlen a - 1) / 2 powi (bitlen b) =
      2 powi (bitlen a - 1 - bitlen b)"
    by (rule power_int_diff [symmetric]) simp
  moreover have "bitlen a - 1 - bitlen b = ?d - 1" by simp
  ultimately have lo: "2 powi (?d - 1) \<le> \<bar>q\<bar>" using q by simp
  have e: "binary_exponent q = (if 2 powi ?d \<le> \<bar>q\<bar> then ?d else ?d - 1)"
    by (simp add: binary_exponent_def ab)
  show "2 powi (binary_exponent q) \<le> \<bar>q\<bar>"
    using lo by (simp add: e)
  show "\<bar>q\<bar> < 2 powi (binary_exponent q + 1)"
    using hi by (simp add: e)
qed

lemma powi_less_cancel:
  assumes "(2::rat) powi m < 2 powi n"
  shows "m < n"
proof (rule ccontr)
  assume "\<not> m < n"
  then have "n \<le> m" by simp
  then have "(2::rat) powi n \<le> 2 powi m"
    by (rule power_int_increasing) simp
  with assms show False by simp
qed

lemma binary_exponent_unique:
  assumes "2 powi e \<le> \<bar>q\<bar>" and "\<bar>q\<bar> < 2 powi (e + 1)"
  shows "binary_exponent q = e"
proof -
  have "(0::rat) < 2 powi e" by simp
  with assms(1) have "0 < \<bar>q\<bar>" by linarith
  then have nz: "q \<noteq> 0" by simp
  note b = binary_exponent_bounds [OF nz]
  have "(2::rat) powi e < 2 powi (binary_exponent q + 1)"
    using assms(1) b(2) by simp
  then have "e < binary_exponent q + 1"
    by (rule powi_less_cancel)
  moreover have "(2::rat) powi (binary_exponent q) < 2 powi (e + 1)"
    using assms(2) b(1) by simp
  then have "binary_exponent q < e + 1"
    by (rule powi_less_cancel)
  ultimately show ?thesis by simp
qed

lemma round_half_even_near:
  assumes "\<bar>q - of_int n\<bar> < 1 / 2"
  shows "round_half_even q = n"
proof -
  have lo: "of_int \<lfloor>q\<rfloor> \<le> q" and hi: "q < of_int \<lfloor>q\<rfloor> + 1"
    by (simp_all add: floor_less_cancel)
  from assms have a: "of_int n - 1 / 2 < q" and b: "q < of_int n + 1 / 2"
    by linarith+
  have "(of_int \<lfloor>q\<rfloor> :: rat) < of_int n + 1 / 2" using lo b by linarith
  then have "(of_int \<lfloor>q\<rfloor> :: rat) < of_int (n + 1)" by simp
  then have "\<lfloor>q\<rfloor> < n + 1" by (simp only: of_int_less_iff)
  then have le: "\<lfloor>q\<rfloor> \<le> n" by simp
  have "(of_int n :: rat) - 1 / 2 < of_int \<lfloor>q\<rfloor> + 1" using hi a by linarith
  then have "(of_int (n - 2) :: rat) < of_int \<lfloor>q\<rfloor>" by simp
  then have "n - 2 < \<lfloor>q\<rfloor>" by (simp only: of_int_less_iff)
  then have ge: "n - 1 \<le> \<lfloor>q\<rfloor>" by simp
  from le ge consider "\<lfloor>q\<rfloor> = n" | "\<lfloor>q\<rfloor> = n - 1" by linarith
  then show ?thesis
  proof cases
    case 1
    then have "q - of_int \<lfloor>q\<rfloor> < 1 / 2" using b by simp
    then show ?thesis using 1 by (simp add: round_half_even_def Let_def)
  next
    case 2
    then have "1 / 2 < q - of_int \<lfloor>q\<rfloor>" using a by simp
    then show ?thesis using 2 by (simp add: round_half_even_def Let_def)
  qed
qed

lemma round_half_even_of_int: "round_half_even (of_int n) = n"
  by (rule round_half_even_near) simp

text \<open>
  How a rounding is computed on a given number: the exponent \<open>e\<close> is recognised by its
  two bounds and the significand \<open>n\<close> by its distance from the scaled number.
\<close>

lemma round_to_double_eval:
  assumes "2 powi e \<le> \<bar>q\<bar>" and "\<bar>q\<bar> < 2 powi (e + 1)" and "- 1022 \<le> e"
    and "\<bar>q / 2 powi (e - 52) - of_int n\<bar> < 1 / 2"
    and "\<bar>of_int n * 2 powi (e - 52)\<bar> < (2::rat) powi 1024"
  shows "round_to_double q = Finite (of_int n * 2 powi (e - 52))"
proof -
  have "(0::rat) < 2 powi e" by simp
  with assms(1) have "0 < \<bar>q\<bar>" by linarith
  then have nz: "q \<noteq> 0" by simp
  have e: "binary_exponent q = e" using assms(1,2) by (rule binary_exponent_unique)
  have m: "max e (- 1022) = e" using assms(3) by simp
  have n: "round_half_even (q / 2 powi (e - 52)) = n"
    using assms(4) by (rule round_half_even_near)
  show ?thesis
    using assms(5) by (simp add: round_to_double_def nz e m n Let_def not_le [symmetric])
qed

text \<open>
  A rounding of a number in the normal range is finite and off by at most the fraction
  \<open>2 ^ -53\<close> of the number.
\<close>

lemma round_half_even_error: "\<bar>of_int (round_half_even q) - q\<bar> \<le> 1 / 2"
proof -
  have lo: "of_int \<lfloor>q\<rfloor> \<le> q" and hi: "q < of_int \<lfloor>q\<rfloor> + 1"
    by (simp_all add: floor_less_cancel)
  show ?thesis
    using lo hi by (auto simp: round_half_even_def Let_def)
qed

lemma abs_scaled:
  assumes "0 < (u::rat)"
  shows "\<bar>n * u - q\<bar> = \<bar>n - q / u\<bar> * u"
proof -
  have "n * u - q = (n - q / u) * u"
    using assms by (simp add: field_simps)
  then have "\<bar>n * u - q\<bar> = \<bar>n - q / u\<bar> * \<bar>u\<bar>"
    by (simp only: abs_mult)
  then show ?thesis using assms by simp
qed

lemma round_to_double_error:
  assumes "2 powi (- 1022) \<le> \<bar>q\<bar>" and "\<bar>q\<bar> < 2 powi 1023"
  shows "\<exists>r. round_to_double q = Finite r \<and> \<bar>r - q\<bar> \<le> \<bar>q\<bar> * 2 powi (- 53)"
proof -
  have "(0::rat) < 2 powi (- 1022)" by simp
  with assms(1) have "0 < \<bar>q\<bar>" by linarith
  then have nz: "q \<noteq> 0" by simp
  let ?e = "binary_exponent q"
  note b = binary_exponent_bounds [OF nz]
  have "(2::rat) powi (- 1022) < 2 powi (?e + 1)" using assms(1) b(2) by simp
  then have "- 1022 < ?e + 1" by (rule powi_less_cancel)
  then have m: "max ?e (- 1022) = ?e" by simp
  have "(2::rat) powi ?e < 2 powi 1023" using assms(2) b(1) by simp
  then have e_hi: "?e < 1023" by (rule powi_less_cancel)
  let ?u = "(2::rat) powi (?e - 52)"
  let ?n = "round_half_even (q / ?u)"
  let ?r = "of_int ?n * ?u"
  have u: "0 < ?u" by simp
  have "\<bar>?r - q\<bar> = \<bar>of_int ?n - q / ?u\<bar> * ?u"
    using u by (rule abs_scaled)
  also have "\<dots> \<le> 1 / 2 * ?u"
    using round_half_even_error [of "q / ?u"] u by (intro mult_right_mono) simp_all
  also have "1 / 2 * ?u = 2 powi ?e * 2 powi (- 53)"
    by (simp add: power_int_add [symmetric] power_int_diff)
  finally have err: "\<bar>?r - q\<bar> \<le> 2 powi ?e * 2 powi (- 53)" .
  also have "\<dots> \<le> \<bar>q\<bar> * 2 powi (- 53)"
    using b(1) by (intro mult_right_mono) simp_all
  finally have rel: "\<bar>?r - q\<bar> \<le> \<bar>q\<bar> * 2 powi (- 53)" .
  have "\<bar>?r\<bar> \<le> \<bar>q\<bar> + \<bar>?r - q\<bar>" by linarith
  also have "\<dots> \<le> \<bar>q\<bar> + \<bar>q\<bar> * 2 powi (- 53)" using rel by simp
  also have "\<dots> \<le> \<bar>q\<bar> * 2" by simp
  also have "\<dots> < 2 powi 1023 * 2" using assms(2) by simp
  also have "(2::rat) powi 1023 * 2 = 2 powi 1024" by simp
  finally have fin: "\<bar>?r\<bar> < 2 powi 1024" .
  have "round_to_double q = Finite ?r"
    using fin by (simp add: round_to_double_def nz m Let_def not_le [symmetric])
  with rel show ?thesis by blast
qed

section \<open>Conversions on concrete numbers\<close>

lemma round_to_double_4: "round_to_double 4 = Finite 4"
proof -
  have "round_to_double 4 = Finite (of_int 4503599627370496 * 2 powi (2 - 52))"
    by (rule round_to_double_eval) simp_all
  then show ?thesis by simp
qed

lemma round_to_double_100: "round_to_double 100 = Finite 100"
proof -
  have "round_to_double 100 = Finite (of_int 7036874417766400 * 2 powi (6 - 52))"
    by (rule round_to_double_eval) simp_all
  then show ?thesis by simp
qed

lemma round_to_double_1e18:
  "round_to_double 1000000000000000000 = Finite 1000000000000000000"
proof -
  have "round_to_double 1000000000000000000 =
          Finite (of_int 7812500000000000 * 2 powi (59 - 52))"
    by (rule round_to_double_eval) simp_all
  then show ?thesis by simp
qed

lemma round_to_double_minus_1e18:
  "round_to_double (- 1000000000000000000) = Finite (- 1000000000000000000)"
proof -
  have "round_to_double (- 1000000000000000000) =
          Finite (of_int (- 7812500000000000) * 2 powi (59 - 52))"
    by (rule round_to_double_eval) simp_all
  then show ?thesis by simp
qed

lemma round_to_double_0_04:
  "round_to_double (1 / 25) = Finite (5764607523034235 / 144115188075855872)"
proof -
  have "round_to_double (1 / 25) = Finite (of_int 5764607523034235 * 2 powi (- 5 - 52))"
    by (rule round_to_double_eval) simp_all
  then show ?thesis by simp
qed

lemma round_to_double_0_016883:
  "round_to_double (16883 / 1000000) = Finite (4866193440569349 / 288230376151711744)"
proof -
  have "round_to_double (16883 / 1000000) =
          Finite (of_int 4866193440569349 * 2 powi (- 6 - 52))"
    by (rule round_to_double_eval) simp_all
  then show ?thesis by simp
qed

lemma round_to_double_back:
  "round_to_double (4866193440569349 / 288230376151711744 * 1000000000000000000) =
     Finite 16882999999999998"
proof -
  have "round_to_double (4866193440569349 / 288230376151711744 * 1000000000000000000) =
          Finite (of_int 8441499999999999 * 2 powi (53 - 52))"
    by (rule round_to_double_eval) simp_all
  then show ?thesis by simp
qed

lemma float_mul_int_CHANGE_FACTOR:
  "float_mul_int x CHANGE_FACTOR = Inr (float_mul x (Finite 1000000000000000000))"
  by (simp add: float_mul_int_def int_to_float_def CHANGE_FACTOR_def round_to_double_1e18)

lemma convert_price_one:
  "convert_price_to_contract_units (Some (Finite 1)) = Inr 1000000000000000000"
  using round_half_even_of_int [of 1000000000000000000]
  by (simp add: convert_price_to_contract_units_def float_mul_int_CHANGE_FACTOR
      round_to_double_1e18)

lemma convert_price_minus_one:
  "convert_price_to_contract_units (Some (Finite (- 1))) = Inr (- 1000000000000000000)"
  using round_half_even_of_int [of "- 1000000000000000000"]
  by (simp add: convert_price_to_contract_units_def float_mul_int_CHANGE_FACTOR
      round_to_double_minus_1e18)

lemma convert_rate_zero: "convert_rate_from_contract_units 0 = Inr (Finite 0)"
  by (simp add: convert_rate_from_contract_units_def int_truediv_def CHANGE_FACTOR_def
      round_to_double_def)

lemma convert_rate_100:
  "convert_rate_from_contract_units 100000000000000000000 = Inr (Finite 100)"
  by (simp add: convert_rate_from_contract_units_def int_truediv_def CHANGE_FACTOR_def
      round_to_double_100)

text \<open>
  C4.  The round trip through the two conversions does not return every non-negative
  integer.  The rate of the docstring of \<open>convert_price_to_contract_units\<close>,
  \<open>16883000000000000\<close>, is read back as the double nearest to \<open>0.016883\<close>, and that
  price is sent as \<open>16882999999999998\<close>, not as the \<open>16,883,000,000,000,000\<close> that the
  docstring announces.
\<close>

theorem docstring_rate_round_trip:
  "convert_rate_from_contract_units 16883000000000000 =
     Inr (Finite (4866193440569349 / 288230376151711744)) \<and>
   convert_price_to_contract_units (Some (Finite (4866193440569349 / 288230376151711744))) =
     Inr 16882999999999998 \<and>
   contract_units_round_trip 16883000000000000 = Inr 16882999999999998"
proof -
  have rate: "convert_rate_from_contract_units 16883000000000000 =
     Inr (Finite (4866193440569349 / 288230376151711744))"
    by (simp add: convert_rate_from_contract_units_def int_truediv_def CHANGE_FACTOR_def
        round_to_double_0_016883)
  have "float_mul (Finite (4866193440569349 / 288230376151711744))
          (Finite 1000000000000000000) = Finite 16882999999999998"
    by (simp only: float_mul.simps round_to_double_back)
  then have price: "convert_price_to_contract_units
         (Some (Finite (4866193440569349 / 288230376151711744))) = Inr 16882999999999998"
    using round_half_even_of_int [of 16882999999999998]
    by (simp add: convert_price_to_contract_units_def float_mul_int_CHANGE_FACTOR)
  from rate price show ?thesis
    by (simp add: contract_units_round_trip_def)
qed

text \<open>
  Below \<open>2 ^ 51\<close> the two rounding errors of the round trip stay under one half, and
  the round trip returns its argument.
\<close>

lemma eps53: "(2::rat) powi (- 53) = 1 / 9007199254740992"
  by (simp add: power_int_minus_divide)

lemma round_trip_exact_below_2_51:
  assumes "0 \<le> x" and "x < 2 ^ 51"
  shows "contract_units_round_trip x = Inr x"
proof (cases "x = 0")
  case True
  have "convert_price_to_contract_units (Some (Finite 0)) = Inr 0"
    using round_half_even_of_int [of 0]
    by (simp add: convert_price_to_contract_units_def float_mul_int_CHANGE_FACTOR
        round_to_double_def)
  then show ?thesis
    using True by (simp add: contract_units_round_trip_def convert_rate_zero)
next
  case False
  define X :: rat where "X = of_int x"
  have "1 \<le> x" "x \<le> 2 ^ 51 - 1" using assms False by simp_all
  then have "(of_int 1 :: rat) \<le> of_int x" "(of_int x :: rat) \<le> of_int (2 ^ 51 - 1)"
    by (simp_all only: of_int_le_iff)
  then have X1: "1 \<le> X" and X2: "X \<le> 2251799813685247"
    by (simp_all add: X_def)
  define q1 where "q1 = X / 1000000000000000000"
  have q1_pos: "0 < q1" using X1 by (simp add: q1_def)
  have "2 powi (- 1022) \<le> (2::rat) powi (- 60)"
    by (rule power_int_increasing) simp_all
  also have "(2::rat) powi (- 60) \<le> 1 / 1000000000000000000"
    by (simp add: power_int_minus_divide)
  also have "\<dots> \<le> q1" using X1 by (simp add: q1_def)
  finally have q1_lo: "2 powi (- 1022) \<le> \<bar>q1\<bar>" using q1_pos by simp
  have "q1 < 1" using X2 by (simp add: q1_def)
  also have "(1::rat) \<le> 2 powi 1023" by simp
  finally have q1_hi: "\<bar>q1\<bar> < 2 powi 1023" using q1_pos by simp
  from round_to_double_error [OF q1_lo q1_hi]
  obtain r1 where r1: "round_to_double q1 = Finite r1"
    and e1: "\<bar>r1 - q1\<bar> \<le> \<bar>q1\<bar> * 2 powi (- 53)" by blast
  have rate: "convert_rate_from_contract_units x = Inr (Finite r1)"
    using r1 by (simp add: convert_rate_from_contract_units_def int_truediv_def
        CHANGE_FACTOR_def q1_def X_def)
  define q2 where "q2 = r1 * 1000000000000000000"
  have "q2 - X = (r1 - q1) * 1000000000000000000"
    by (simp add: q2_def q1_def left_diff_distrib)
  then have "\<bar>q2 - X\<bar> = \<bar>r1 - q1\<bar> * \<bar>1000000000000000000\<bar>"
    by (simp only: abs_mult)
  also have "\<dots> = \<bar>r1 - q1\<bar> * 1000000000000000000"
    by simp
  also have "\<dots> \<le> (\<bar>q1\<bar> * 2 powi (- 53)) * 1000000000000000000"
    using e1 by (intro mult_right_mono) simp_all
  also have "\<dots> = X / 9007199254740992"
    using q1_pos by (simp add: q1_def eps53)
  finally have d2: "\<bar>q2 - X\<bar> \<le> X / 9007199254740992" .
  have q2_lo': "1 / 2 \<le> q2" using d2 X1 by linarith
  have q2_hi': "q2 \<le> 2251799813685248" using d2 X2 by linarith
  have "2 powi (- 1022) \<le> (2::rat) powi (- 1)"
    by (rule power_int_increasing) simp_all
  also have "(2::rat) powi (- 1) = 1 / 2" by (simp add: power_int_minus_divide)
  finally have q2_lo: "2 powi (- 1022) \<le> \<bar>q2\<bar>" using q2_lo' by simp
  have "(2251799813685248::rat) < 2 powi 52" by simp
  also have "(2::rat) powi 52 \<le> 2 powi 1023"
    by (rule power_int_increasing) simp_all
  finally have q2_hi: "\<bar>q2\<bar> < 2 powi 1023" using q2_lo' q2_hi' by simp
  from round_to_double_error [OF q2_lo q2_hi]
  obtain r2 where r2: "round_to_double q2 = Finite r2"
    and e2: "\<bar>r2 - q2\<bar> \<le> \<bar>q2\<bar> * 2 powi (- 53)" by blast
  from e2 have e2': "\<bar>r2 - q2\<bar> \<le> q2 / 9007199254740992"
    using q2_lo' by (simp add: eps53)
  have "\<bar>r2 - X\<bar> < 1 / 2"
    using e2' d2 X1 X2 by linarith
  then have "round_half_even r2 = x"
    unfolding X_def by (rule round_half_even_near)
  moreover have "float_mul (Finite r1) (Finite 1000000000000000000) = Finite r2"
    using r2 by (simp add: q2_def)
  ultimately have "convert_price_to_contract_units (Some (Finite r1)) = Inr x"
    by (simp add: convert_price_to_contract_units_def float_mul_int_CHANGE_FACTOR)
  then show ?thesis
    by (simp add: contract_units_round_trip_def rate)
qed

lemma round_to_double_104e18:
  "round_to_double 104000000000000000000 = Finite 104000000000000000000"
proof -
  have "round_to_double 104000000000000000000 =
          Finite (of_int 6347656250000000 * 2 powi (66 - 52))"
    by (rule round_to_double_eval) simp_all
  then show ?thesis by simp
qed

lemma convert_price_104:
  "convert_price_to_contract_units (Some (Finite 104)) = Inr 104000000000000000000"
  using round_half_even_of_int [of 104000000000000000000]
  by (simp add: convert_price_to_contract_units_def float_mul_int_CHANGE_FACTOR
      round_to_double_104e18)

lemma round_to_double_6: "round_to_double 6 = Finite 6"
proof -
  have "round_to_double 6 = Finite (of_int 6755399441055744 * 2 powi (2 - 52))"
    by (rule round_to_double_eval) simp_all
  then show ?thesis by simp
qed

lemma round_to_double_0_06:
  "round_to_double (3 / 50) = Finite (1080863910568919 / 18014398509481984)"
proof -
  have "round_to_double (3 / 50) = Finite (of_int 8646911284551352 * 2 powi (- 5 - 52))"
    by (rule round_to_double_eval) simp_all
  then show ?thesis by simp
qed

lemma relative_change_106:
  "py_truediv (float_abs (float_sub (Finite 106) (Finite 100))) (Finite 100) =
     Inr (Finite (1080863910568919 / 18014398509481984))"
  by (simp add: round_to_double_6 round_to_double_0_06)

section \<open>The fixtures' stored rates\<close>

lemma get_previous_rates_accepting:
  "convert_rate_from_contract_units stored_rate = Inr r \<Longrightarrow>
   get_previous_rates (web3_accepting stored_rate) config_omg = Inr [(OMG, ETH) \<mapsto> r]"
  by (simp add: get_previous_rates_def get_pair_price_future_def get_rate_def
      web3_accepting_def config_omg_def)

lemma get_previous_rates_pending:
  "get_previous_rates web3_pending config_omg = Inr [(OMG, ETH) \<mapsto> Finite 0]"
  by (simp add: get_previous_rates_def get_pair_price_future_def get_rate_def
      web3_pending_def config_omg_def convert_rate_zero)

lemma should_update_price_104:
  "should_update_price OMG ETH (Some (Finite 100)) (Some (Finite 104)) = Inr False"
  by (simp add: should_update_price_def round_to_double_4 round_to_double_0_04 OMG_def)

lemma should_update_price_106:
  "should_update_price OMG ETH (Some (Finite 100)) (Some (Finite 106)) = Inr True"
  by (simp add: should_update_price_def round_to_double_6 round_to_double_0_06 OMG_def)

lemma get_previous_rates_accepting_two:
  "convert_rate_from_contract_units stored_rate = Inr r \<Longrightarrow>
   get_previous_rates (web3_accepting stored_rate) config_omg_knc =
     Inr [(OMG, ETH) \<mapsto> r, (KNC, ETH) \<mapsto> r]"
  by (simp add: get_previous_rates_def get_pair_price_future_def get_rate_def
      web3_accepting_def config_omg_knc_def)

section \<open>The paths through \<open>update_prices\<close>\<close>

lemma update_prices_fetch_failure:
  "get_previous_rates web3 cfg = Inl e \<Longrightarrow>
   update_prices web3 cfg s coin_price_data force = (Inl e, s)"
  by (simp add: update_prices_def)

lemma update_prices_decision_failure:
  assumes "get_previous_rates web3 cfg = Inr previous_rates"
    and "decided_batch previous_rates coin_price_data force = Inl e"
  shows "update_prices web3 cfg s coin_price_data force = (Inl e, s)"
  using assms by (simp add: update_prices_def decided_batch_def)

lemma update_prices_empty:
  assumes "get_previous_rates web3 cfg = Inr previous_rates"
    and "decided_batch previous_rates coin_price_data force = Inr []"
  shows "update_prices web3 cfg s coin_price_data force = (Inr None, s)"
  using assms by (simp add: update_prices_def decided_batch_def)

lemma update_prices_submit:
  assumes "get_previous_rates web3 cfg = Inr previous_rates"
    and "decided_batch previous_rates coin_price_data force = Inr rates_for_update"
    and "rates_for_update \<noteq> []"
  shows "update_prices web3 cfg s coin_price_data force =
           (case set_rates web3 s rates_for_update of
              (Inr rs, s') \<Rightarrow> (Inr (Some rs), s'\<lparr>updates_requested := updates_requested s' + 1\<rparr>)
            | (Inl PreviousTransactionPending, s') \<Rightarrow> (Inr None, s')
            | (Inl e, s') \<Rightarrow> (Inl e, s'))"
  using assms by (simp add: update_prices_def decided_batch_def)

section \<open>The decision step\<close>

lemma should_update_price_zero:
  "py_eq_zero previous_rate \<Longrightarrow> should_update_price c m previous_rate (Some p) = Inr True"
  by (cases previous_rate) (simp_all add: should_update_price_def)

lemma should_update_price_no_price:
  "should_update_price c m previous_rate None = Inl TypeError"
  by (cases previous_rate) (simp_all add: should_update_price_def)

lemma should_update_price_no_rate:
  "should_update_price c m None current_rate = Inl TypeError"
  by (cases current_rate) (simp_all add: should_update_price_def)

lemma py_truediv_nonzero:
  "\<not> py_eq_zero (Some b) \<Longrightarrow> \<exists>q. py_truediv a b = Inr q"
  by (cases b; cases a) simp_all

lemma should_update_price_nonzero:
  assumes "\<not> py_eq_zero (Some b)"
  shows "\<exists>current_change.
           py_truediv (float_abs (float_sub p b)) b = Inr current_change \<and>
           should_update_price c m (Some b) (Some p) =
             Inr (float_gt current_change (volatility c))"
proof -
  from py_truediv_nonzero [OF assms]
  obtain q where q: "py_truediv (float_abs (float_sub p b)) b = Inr q" by blast
  with assms show ?thesis
    by (simp add: should_update_price_def)
qed

lemma should_update_price_returns:
  "\<exists>b. should_update_price c m (Some r) (Some p) = Inr b"
proof (cases "py_eq_zero (Some r)")
  case True
  then show ?thesis using should_update_price_zero by blast
next
  case False
  then show ?thesis using should_update_price_nonzero by blast
qed

lemma prepare_rates_for_update_filter:
  "observations_usable previous_rates new_rates \<Longrightarrow>
   prepare_rates_for_update previous_rates new_rates =
     Inr (filter (\<lambda>((c, m), price).
            should_update_price c m (previous_rates (c, m)) price = Inr True) new_rates)"
proof (induction new_rates)
  case Nil
  then show ?case by simp
next
  case (Cons x new_rates)
  obtain c m price where x: "x = ((c, m), price)" by (metis surj_pair)
  from Cons.prems x obtain r p where rp: "previous_rates (c, m) = Some r" "price = Some p"
    by (auto simp: observations_usable_def)
  from Cons have IH: "prepare_rates_for_update previous_rates new_rates =
     Inr (filter (\<lambda>((c, m), price).
            should_update_price c m (previous_rates (c, m)) price = Inr True) new_rates)"
    by (simp add: observations_usable_def)
  obtain b where b: "should_update_price c m (Some r) (Some p) = Inr b"
    using should_update_price_returns by blast
  show ?case
    by (simp add: x rp IH b get_previous_rate_def)
qed

lemma prepare_rates_for_update_raises:
  "\<not> observations_usable previous_rates new_rates \<Longrightarrow>
   prepare_rates_for_update previous_rates new_rates = Inl TypeError"
proof (induction new_rates)
  case Nil
  then show ?case by (simp add: observations_usable_def)
next
  case (Cons x new_rates)
  obtain c m price where x: "x = ((c, m), price)" by (metis surj_pair)
  show ?case
  proof (cases "price \<noteq> None \<and> previous_rates (c, m) \<noteq> None")
    case True
    then obtain r p where rp: "previous_rates (c, m) = Some r" "price = Some p" by auto
    obtain b where b: "should_update_price c m (Some r) (Some p) = Inr b"
      using should_update_price_returns by blast
    from Cons.prems True x have "\<not> observations_usable previous_rates new_rates"
      by (simp add: observations_usable_def)
    then have "prepare_rates_for_update previous_rates new_rates = Inl TypeError"
      by (rule Cons.IH)
    then show ?thesis by (simp add: x rp b get_previous_rate_def)
  next
    case False
    then have "should_update_price c m (get_previous_rate c m previous_rates) price = Inl TypeError"
      by (cases price; cases "previous_rates (c, m)")
         (simp_all add: get_previous_rate_def should_update_price_no_price should_update_price_no_rate)
    then show ?thesis by (simp add: x)
  qed
qed

text \<open>
  The threshold rule on the batches for which the decision step returns.  Where every
  observation of the batch is usable and the pair's baseline is strictly positive,
  \<open>_prepare_rates_for_update\<close> returns a batch, the relative change
  \<open>abs(observed - baseline) / baseline\<close> is defined, and the pair is in the batch if
  and only if that change is strictly greater than the asset's volatility threshold, which
  is what \<open>_should_update_price\<close> returns; a change equal to the threshold leaves the
  pair out.
\<close>

lemma threshold_rule:
  assumes "observations_usable previous_rates new_rates"
    and "((c, m), Some observed) \<in> set new_rates"
    and "previous_rates (c, m) = Some baseline"
    and "float_gt baseline (Finite 0)"
  shows "\<exists>updates current_change.
           prepare_rates_for_update previous_rates new_rates = Inr updates \<and>
           py_truediv (float_abs (float_sub observed baseline)) baseline = Inr current_change \<and>
           should_update_price c m (Some baseline) (Some observed) =
             Inr (float_gt current_change (volatility c)) \<and>
           (((c, m), Some observed) \<in> set updates \<longleftrightarrow>
              float_gt current_change (volatility c)) \<and>
           (current_change = volatility c \<longrightarrow> ((c, m), Some observed) \<notin> set updates)"
proof -
  from assms(4) have nz: "\<not> py_eq_zero (Some baseline)"
    by (cases baseline) auto
  from should_update_price_nonzero [OF nz, of observed c m]
  obtain q where q: "py_truediv (float_abs (float_sub observed baseline)) baseline = Inr q"
    "should_update_price c m (Some baseline) (Some observed) = Inr (float_gt q (volatility c))"
    by blast
  have irrefl: "\<not> float_gt x x" for x by (cases x) simp_all
  let ?updates = "filter (\<lambda>((c, m), price).
            should_update_price c m (previous_rates (c, m)) price = Inr True) new_rates"
  have "prepare_rates_for_update previous_rates new_rates = Inr ?updates"
    using assms(1) by (rule prepare_rates_for_update_filter)
  moreover have "((c, m), Some observed) \<in> set ?updates \<longleftrightarrow> float_gt q (volatility c)"
    using assms(2,3) q(2) by simp
  ultimately show ?thesis using q irrefl by blast
qed

lemma threshold_rule_instance:
  "\<exists>updates current_change.
     prepare_rates_for_update [(OMG, ETH) \<mapsto> Finite 100]
       [((OMG, ETH), Some (Finite 106))] = Inr updates \<and>
     py_truediv (float_abs (float_sub (Finite 106) (Finite 100))) (Finite 100) =
       Inr current_change \<and>
     should_update_price OMG ETH (Some (Finite 100)) (Some (Finite 106)) =
       Inr (float_gt current_change (volatility OMG)) \<and>
     (((OMG, ETH), Some (Finite 106)) \<in> set updates \<longleftrightarrow>
        float_gt current_change (volatility OMG)) \<and>
     (current_change = volatility OMG \<longrightarrow> ((OMG, ETH), Some (Finite 106)) \<notin> set updates)"
  using threshold_rule [of "[(OMG, ETH) \<mapsto> Finite 100]" "[((OMG, ETH), Some (Finite 106))]"
      OMG ETH "Finite 106" "Finite 100"]
  by (simp add: observations_usable_def)

text \<open>
  The bootstrap rule on the same batches.  Where every observation of the batch is usable
  and the pair's fetched baseline equals \<open>0\<close>, \<open>_prepare_rates_for_update\<close> returns a batch that contains the pair,
  whatever the observed price and whatever the asset's volatility threshold.
\<close>

lemma bootstrap_rule:
  assumes "observations_usable previous_rates new_rates"
    and "((c, m), Some observed) \<in> set new_rates"
    and "previous_rates (c, m) = Some baseline"
    and "py_eq_zero (Some baseline)"
  shows "\<exists>updates.
           prepare_rates_for_update previous_rates new_rates = Inr updates \<and>
           ((c, m), Some observed) \<in> set updates"
proof -
  let ?updates = "filter (\<lambda>((c, m), price).
            should_update_price c m (previous_rates (c, m)) price = Inr True) new_rates"
  have "prepare_rates_for_update previous_rates new_rates = Inr ?updates"
    using assms(1) by (rule prepare_rates_for_update_filter)
  moreover have "should_update_price c m (Some baseline) (Some observed) = Inr True"
    using assms(4) by (rule should_update_price_zero)
  then have "((c, m), Some observed) \<in> set ?updates"
    using assms(2,3) by simp
  ultimately show ?thesis by blast
qed

lemma bootstrap_rule_instance:
  "\<exists>updates.
     prepare_rates_for_update [(OMG, ETH) \<mapsto> Finite 0]
       [((OMG, ETH), Some (Finite (- 3)))] = Inr updates \<and>
     ((OMG, ETH), Some (Finite (- 3))) \<in> set updates"
  using bootstrap_rule [of "[(OMG, ETH) \<mapsto> Finite 0]" "[((OMG, ETH), Some (Finite (- 3)))]"
      OMG ETH "Finite (- 3)" "Finite 0"]
  by (simp add: observations_usable_def)

lemma prepare_rates_for_update_absent:
  assumes "((c, m), price) \<in> set new_rates" and "previous_rates (c, m) = None"
  shows "prepare_rates_for_update previous_rates new_rates = Inl TypeError"
proof (rule prepare_rates_for_update_raises)
  show "\<not> observations_usable previous_rates new_rates"
    using assms by (force simp: observations_usable_def list_all_iff)
qed

lemma OMG_neq_KNC: "KNC \<noteq> OMG"
  by (simp add: OMG_def KNC_def)

text \<open>
  C1.  The threshold rule does not hold for every pair with a strictly positive baseline.
  With the baseline \<open>100.0\<close> and the threshold \<open>0.05\<close> the observed price \<open>106.0\<close>
  has the relative change \<open>0.06\<close>, above the threshold, and
  \<open>_should_update_price\<close> returns \<open>True\<close> for it.  Beside an observation whose price
  is \<open>None\<close> the pair is not included all the same: \<open>_should_update_price\<close> raises
  \<open>TypeError\<close> on the \<open>None\<close> price, and the exception leaves
  \<open>_prepare_rates_for_update\<close> and \<open>update_prices\<close> with no batch.  Alone, the
  observation is included.
\<close>

theorem threshold_rule_aborted_by_none_price:
  "py_truediv (float_abs (float_sub (Finite 106) (Finite 100))) (Finite 100) =
     Inr (Finite (1080863910568919 / 18014398509481984)) \<and>
   float_gt (Finite (1080863910568919 / 18014398509481984)) (volatility OMG) \<and>
   should_update_price OMG ETH (Some (Finite 100)) (Some (Finite 106)) = Inr True \<and>
   prepare_rates_for_update [(OMG, ETH) \<mapsto> Finite 100, (KNC, ETH) \<mapsto> Finite 100]
     [((OMG, ETH), Some (Finite 106)), ((KNC, ETH), None)] = Inl TypeError \<and>
   update_prices (web3_accepting 100000000000000000000) config_omg_knc fresh_updater
     [((OMG, ETH), Some (Finite 106)), ((KNC, ETH), None)] False =
     (Inl TypeError, fresh_updater) \<and>
   prepare_rates_for_update [(OMG, ETH) \<mapsto> Finite 100, (KNC, ETH) \<mapsto> Finite 100]
     [((OMG, ETH), Some (Finite 106))] = Inr [((OMG, ETH), Some (Finite 106))]"
proof -
  let ?rates = "[(OMG, ETH) \<mapsto> Finite 100, (KNC, ETH) \<mapsto> Finite 100]"
  let ?data = "[((OMG, ETH), Some (Finite 106)), ((KNC, ETH), None)]"
  have gt: "float_gt (Finite (1080863910568919 / 18014398509481984)) (volatility OMG)"
    by (simp add: OMG_def)
  have "\<not> observations_usable ?rates ?data"
    by (simp add: observations_usable_def)
  then have raises: "prepare_rates_for_update ?rates ?data = Inl TypeError"
    by (rule prepare_rates_for_update_raises)
  have prev: "get_previous_rates (web3_accepting 100000000000000000000) config_omg_knc =
      Inr ?rates"
    using convert_rate_100 by (rule get_previous_rates_accepting_two)
  have "decided_batch ?rates ?data False = Inl TypeError"
    by (simp only: decided_batch_def raises if_False)
  with prev have cycle: "update_prices (web3_accepting 100000000000000000000) config_omg_knc
      fresh_updater ?data False = (Inl TypeError, fresh_updater)"
    by (rule update_prices_decision_failure)
  have rate: "?rates (OMG, ETH) = Some (Finite 100)"
    by (simp add: OMG_neq_KNC [symmetric])
  have alone: "prepare_rates_for_update ?rates [((OMG, ETH), Some (Finite 106))] =
      Inr [((OMG, ETH), Some (Finite 106))]"
    using rate by (simp add: get_previous_rate_def should_update_price_106)
  from relative_change_106 gt should_update_price_106 raises cycle alone
  show ?thesis by blast
qed

text \<open>
  C2.  A pair with the baseline \<open>0\<close> and a usable observation is not included
  unconditionally.  \<open>_should_update_price\<close> returns \<open>True\<close> for it, but beside an
  observation whose price is \<open>None\<close> the log line of that observation raises
  \<open>TypeError\<close>, and the exception leaves \<open>_prepare_rates_for_update\<close> and
  \<open>update_prices\<close> with no batch.  Alone, the observation is included.
\<close>

theorem bootstrap_rule_aborted_by_none_price:
  "should_update_price OMG ETH (Some (Finite 0)) (Some (Finite 1)) = Inr True \<and>
   prepare_rates_for_update [(OMG, ETH) \<mapsto> Finite 0, (KNC, ETH) \<mapsto> Finite 0]
     [((OMG, ETH), Some (Finite 1)), ((KNC, ETH), None)] = Inl TypeError \<and>
   update_prices (web3_accepting 0) config_omg_knc fresh_updater
     [((OMG, ETH), Some (Finite 1)), ((KNC, ETH), None)] False =
     (Inl TypeError, fresh_updater) \<and>
   prepare_rates_for_update [(OMG, ETH) \<mapsto> Finite 0, (KNC, ETH) \<mapsto> Finite 0]
     [((OMG, ETH), Some (Finite 1))] = Inr [((OMG, ETH), Some (Finite 1))]"
proof -
  let ?rates = "[(OMG, ETH) \<mapsto> Finite 0, (KNC, ETH) \<mapsto> Finite 0]"
  let ?data = "[((OMG, ETH), Some (Finite 1)), ((KNC, ETH), None)]"
  have one: "should_update_price OMG ETH (Some (Finite 0)) (Some (Finite 1)) = Inr True"
    by (rule should_update_price_zero) simp
  have "\<not> observations_usable ?rates ?data"
    by (simp add: observations_usable_def)
  then have raises: "prepare_rates_for_update ?rates ?data = Inl TypeError"
    by (rule prepare_rates_for_update_raises)
  have prev: "get_previous_rates (web3_accepting 0) config_omg_knc = Inr ?rates"
    using convert_rate_zero by (rule get_previous_rates_accepting_two)
  have "decided_batch ?rates ?data False = Inl TypeError"
    by (simp only: decided_batch_def raises if_False)
  with prev have cycle: "update_prices (web3_accepting 0) config_omg_knc
      fresh_updater ?data False = (Inl TypeError, fresh_updater)"
    by (rule update_prices_decision_failure)
  have rate: "?rates (OMG, ETH) = Some (Finite 0)"
    by (simp add: OMG_neq_KNC [symmetric])
  have alone: "prepare_rates_for_update ?rates [((OMG, ETH), Some (Finite 1))] =
      Inr [((OMG, ETH), Some (Finite 1))]"
    using rate by (simp add: get_previous_rate_def one)
  from one raises cycle alone show ?thesis by blast
qed

text \<open>
  C3.  A pair that is absent from the fetched baseline map is not treated as having the
  baseline \<open>0\<close>: \<open>_get_previous_rate\<close> returns \<open>None\<close> for it, the subtraction in
  \<open>_should_update_price\<close> raises \<open>TypeError\<close>, and the exception leaves
  \<open>_prepare_rates_for_update\<close> and \<open>update_prices\<close>.  With the baseline \<open>0\<close> in the
  map the same observation is included.
\<close>

theorem absent_baseline_raises:
  "get_previous_rate KNC ETH [(OMG, ETH) \<mapsto> Finite 0] = None \<and>
   prepare_rates_for_update [(OMG, ETH) \<mapsto> Finite 0] [((KNC, ETH), Some (Finite 1))] =
     Inl TypeError \<and>
   update_prices (web3_accepting 0) config_omg fresh_updater
     [((KNC, ETH), Some (Finite 1))] False = (Inl TypeError, fresh_updater) \<and>
   prepare_rates_for_update [(KNC, ETH) \<mapsto> Finite 0] [((KNC, ETH), Some (Finite 1))] =
     Inr [((KNC, ETH), Some (Finite 1))]"
proof -
  have absent: "[(OMG, ETH) \<mapsto> Finite 0] (KNC, ETH) = None"
    by (simp add: OMG_neq_KNC)
  have raises: "prepare_rates_for_update [(OMG, ETH) \<mapsto> Finite 0]
      [((KNC, ETH), Some (Finite 1))] = Inl TypeError"
    using absent
    by (intro prepare_rates_for_update_absent
          [of KNC ETH "Some (Finite 1)" "[((KNC, ETH), Some (Finite 1))]"]) simp_all
  have "get_previous_rates (web3_accepting 0) config_omg = Inr [(OMG, ETH) \<mapsto> Finite 0]"
    using convert_rate_zero by (rule get_previous_rates_accepting)
  moreover have "decided_batch [(OMG, ETH) \<mapsto> Finite 0]
      [((KNC, ETH), Some (Finite 1))] False = Inl TypeError"
    by (simp only: decided_batch_def raises if_False)
  ultimately have "update_prices (web3_accepting 0) config_omg fresh_updater
     [((KNC, ETH), Some (Finite 1))] False = (Inl TypeError, fresh_updater)"
    by (rule update_prices_decision_failure)
  moreover have "prepare_rates_for_update [(KNC, ETH) \<mapsto> Finite 0]
      [((KNC, ETH), Some (Finite 1))] = Inr [((KNC, ETH), Some (Finite 1))]"
    by (simp add: get_previous_rate_def should_update_price_zero)
  ultimately show ?thesis
    using absent raises by (simp add: get_previous_rate_def)
qed

section \<open>The arrays of the setter call\<close>

lemma format_coin_prices_for_setter_arrays:
  "format_coin_prices_for_setter coin_price_data = Inr (sources, rates) \<Longrightarrow>
   sources = map (\<lambda>((c, m), price). address c) (included coin_price_data) \<and>
   map (\<lambda>(pair, price). convert_price_to_contract_units price) (included coin_price_data) =
     map Inr rates"
proof (induction coin_price_data arbitrary: sources rates)
  case Nil
  then show ?case by (simp add: included_def)
next
  case (Cons x coin_price_data)
  obtain c m price where x: "x = ((c, m), price)" by (metis surj_pair)
  show ?case
  proof (cases "truthy price")
    case True
    with Cons.prems x obtain r sources' rates'
      where r: "convert_price_to_contract_units price = Inr r"
        and rest: "format_coin_prices_for_setter coin_price_data = Inr (sources', rates')"
        and eq: "sources = address c # sources'" "rates = r # rates'"
      by (auto split: sum.splits)
    from Cons.IH [OF rest] show ?thesis
      using True by (simp add: x r eq included_def)
  next
    case False
    with Cons.prems x have "format_coin_prices_for_setter coin_price_data = Inr (sources, rates)"
      by simp
    from Cons.IH [OF this] show ?thesis
      using False by (simp add: x included_def)
  qed
qed

lemma format_coin_prices_for_setter_returns:
  "list_all (\<lambda>(pair, price). \<exists>r. convert_price_to_contract_units price = Inr r)
     (included coin_price_data) \<Longrightarrow>
   \<exists>sources rates. format_coin_prices_for_setter coin_price_data = Inr (sources, rates)"
proof (induction coin_price_data)
  case Nil
  then show ?case by simp
next
  case (Cons x coin_price_data)
  obtain c m price where x: "x = ((c, m), price)" by (metis surj_pair)
  from Cons.prems have "list_all (\<lambda>(pair, price). \<exists>r. convert_price_to_contract_units price = Inr r)
     (included coin_price_data)"
    by (simp add: included_def split: if_splits)
  from Cons.IH [OF this] obtain sources rates
    where rest: "format_coin_prices_for_setter coin_price_data = Inr (sources, rates)" by blast
  show ?case
  proof (cases "truthy price")
    case True
    with Cons.prems x obtain r where "convert_price_to_contract_units price = Inr r"
      by (auto simp: included_def)
    then show ?thesis using True by (simp add: x rest)
  next
    case False
    then show ?thesis by (simp add: x rest)
  qed
qed

text \<open>
  C9.  \<open>format_coin_prices_for_setter\<close> returns its two arrays whenever the price of
  every included observation converts to chain units.  The arrays it returns have the
  length of the sequence of included observations, and at every index \<open>sources\<close> holds the
  address of the coin of the included observation at that index and \<open>rates\<close> the
  conversion of that observation's price.
\<close>

theorem setter_arrays_aligned:
  "(list_all (\<lambda>(pair, price). \<exists>r. convert_price_to_contract_units price = Inr r)
      (included coin_price_data) \<longrightarrow>
    (\<exists>sources rates. format_coin_prices_for_setter coin_price_data = Inr (sources, rates))) \<and>
   (format_coin_prices_for_setter coin_price_data = Inr (sources, rates) \<longrightarrow>
      length sources = length (included coin_price_data) \<and>
      length rates = length (included coin_price_data) \<and>
      (\<forall>i < length (included coin_price_data).
         sources ! i = address (fst (fst (included coin_price_data ! i))) \<and>
         convert_price_to_contract_units (snd (included coin_price_data ! i)) =
           Inr (rates ! i)))"
proof (intro conjI impI)
  assume "list_all (\<lambda>(pair, price). \<exists>r. convert_price_to_contract_units price = Inr r)
      (included coin_price_data)"
  then show "\<exists>sources rates. format_coin_prices_for_setter coin_price_data = Inr (sources, rates)"
    by (rule format_coin_prices_for_setter_returns)
next
  assume "format_coin_prices_for_setter coin_price_data = Inr (sources, rates)"
  from format_coin_prices_for_setter_arrays [OF this]
  have s: "sources = map (\<lambda>((c, m), price). address c) (included coin_price_data)"
    and r: "map (\<lambda>(pair, price). convert_price_to_contract_units price)
              (included coin_price_data) = map Inr rates"
    by simp_all
  show "length sources = length (included coin_price_data)"
    by (simp add: s)
  from r have "length (map (\<lambda>(pair, price). convert_price_to_contract_units price)
              (included coin_price_data)) = length (map Inr rates)"
    by simp
  then show len: "length rates = length (included coin_price_data)"
    by simp
  show "\<forall>i < length (included coin_price_data).
         sources ! i = address (fst (fst (included coin_price_data ! i))) \<and>
         convert_price_to_contract_units (snd (included coin_price_data ! i)) =
           Inr (rates ! i)"
  proof (intro allI impI)
    fix i assume i: "i < length (included coin_price_data)"
    have "map (\<lambda>(pair, price). convert_price_to_contract_units price)
              (included coin_price_data) ! i = map Inr rates ! i"
      by (simp only: r)
    then have "convert_price_to_contract_units (snd (included coin_price_data ! i)) =
           Inr (rates ! i)"
      using i len by (simp add: case_prod_beta)
    moreover have "sources ! i = address (fst (fst (included coin_price_data ! i)))"
      using i by (simp add: s case_prod_beta)
    ultimately show "sources ! i = address (fst (fst (included coin_price_data ! i))) \<and>
         convert_price_to_contract_units (snd (included coin_price_data ! i)) =
           Inr (rates ! i)"
      by simp
  qed
qed

theorem setter_arrays_aligned_witness:
  "(\<exists>sources rates.
      format_coin_prices_for_setter
        [((OMG, ETH), Some (Finite 104)), ((OMG, ETH), None), ((KNC, ETH), Some (Finite 1))] =
        Inr (sources, rates)) \<and>
   format_coin_prices_for_setter
     [((OMG, ETH), Some (Finite 104)), ((OMG, ETH), None), ((KNC, ETH), Some (Finite 1))] =
     Inr ([address OMG, address KNC], [104000000000000000000, 1000000000000000000]) \<and>
   included
     [((OMG, ETH), Some (Finite 104)), ((OMG, ETH), None), ((KNC, ETH), Some (Finite 1))] =
     [((OMG, ETH), Some (Finite 104)), ((KNC, ETH), Some (Finite 1))] \<and>
   [address OMG, address KNC] ! 1 = address KNC \<and>
   convert_price_to_contract_units (Some (Finite 1)) =
     Inr ([104000000000000000000, 1000000000000000000] ! 1)"
proof -
  let ?data = "[((OMG, ETH), Some (Finite 104)), ((OMG, ETH), None),
      ((KNC, ETH), Some (Finite 1))]"
  have inc: "included ?data = [((OMG, ETH), Some (Finite 104)), ((KNC, ETH), Some (Finite 1))]"
    by (simp add: included_def)
  have fmt: "format_coin_prices_for_setter ?data =
      Inr ([address OMG, address KNC], [104000000000000000000, 1000000000000000000])"
    by (simp add: convert_price_104 convert_price_one)
  have conv: "list_all (\<lambda>(pair, price). \<exists>r. convert_price_to_contract_units price = Inr r)
      (included ?data)"
    by (simp add: inc convert_price_104 convert_price_one)
  note inst = setter_arrays_aligned [of ?data "[address OMG, address KNC]"
      "[104000000000000000000, 1000000000000000000]"]
  from inst conv
  have ex: "\<exists>sources rates. format_coin_prices_for_setter ?data = Inr (sources, rates)"
    by blast
  from inst fmt have "\<forall>i < length (included ?data).
      [address OMG, address KNC] ! i = address (fst (fst (included ?data ! i))) \<and>
      convert_price_to_contract_units (snd (included ?data ! i)) =
        Inr ([104000000000000000000, 1000000000000000000] ! i)"
    by blast
  moreover have "1 < length (included ?data)"
    by (simp add: inc)
  ultimately have "[address OMG, address KNC] ! 1 = address (fst (fst (included ?data ! 1))) \<and>
      convert_price_to_contract_units (snd (included ?data ! 1)) =
        Inr ([104000000000000000000, 1000000000000000000] ! 1)"
    by blast
  then have "[address OMG, address KNC] ! 1 = address KNC \<and>
      convert_price_to_contract_units (Some (Finite 1)) =
        Inr ([104000000000000000000, 1000000000000000000] ! 1)"
    by (simp add: inc)
  with ex show ?thesis using fmt inc by blast
qed

lemma truthy_iff: "truthy price \<longleftrightarrow> price \<noteq> None \<and> price \<noteq> Some (Finite 0)"
  by (cases price rule: truthy.cases) simp_all

lemma included_alt:
  "included coin_price_data =
     filter (\<lambda>(pair, price). price \<noteq> None \<and> price \<noteq> Some (Finite 0)) coin_price_data"
  by (simp add: included_def truthy_iff)

lemma format_coin_prices_for_setter_included:
  "format_coin_prices_for_setter coin_price_data =
   format_coin_prices_for_setter (included coin_price_data)"
  by (induction coin_price_data) (auto simp: included_def split: sum.splits)

text \<open>
  C5, amended.  An observation whose price is \<open>None\<close> or \<open>0\<close> contributes nothing to the
  arrays and raises nothing in the serialization: \<open>format_coin_prices_for_setter\<close> and
  \<open>set_rates\<close> behave on a batch as they do on the batch without these observations.
\<close>

theorem falsy_prices_skipped:
  "format_coin_prices_for_setter coin_price_data =
     format_coin_prices_for_setter
       (filter (\<lambda>(pair, price). price \<noteq> None \<and> price \<noteq> Some (Finite 0)) coin_price_data) \<and>
   set_rates web3 s coin_price_data =
     set_rates web3 s
       (filter (\<lambda>(pair, price). price \<noteq> None \<and> price \<noteq> Some (Finite 0)) coin_price_data)"
proof -
  have "format_coin_prices_for_setter coin_price_data =
     format_coin_prices_for_setter
       (filter (\<lambda>(pair, price). price \<noteq> None \<and> price \<noteq> Some (Finite 0)) coin_price_data)"
    using format_coin_prices_for_setter_included [of coin_price_data]
    by (simp only: included_alt)
  then show ?thesis by (simp add: set_rates_def)
qed

theorem falsy_prices_skipped_witness:
  "format_coin_prices_for_setter
     [((OMG, ETH), None), ((KNC, ETH), Some (Finite 1)), ((OMG, ETH), Some (Finite 0))] =
   format_coin_prices_for_setter [((KNC, ETH), Some (Finite 1))] \<and>
   set_rates (web3_accepting 0) fresh_updater
     [((OMG, ETH), None), ((KNC, ETH), Some (Finite 1)), ((OMG, ETH), Some (Finite 0))] =
   set_rates (web3_accepting 0) fresh_updater [((KNC, ETH), Some (Finite 1))]"
  using falsy_prices_skipped [of
      "[((OMG, ETH), None), ((KNC, ETH), Some (Finite 1)), ((OMG, ETH), Some (Finite 0))]"
      "web3_accepting 0" fresh_updater]
  by simp

text \<open>
  C5 as stated fails for a negative price, which is truthy: with the stored rate \<open>0\<close>
  the decision step includes the pair, and the rate \<open>-10 ^ 18\<close> is sent to the contract.
\<close>

theorem negative_price_is_sent:
  "update_prices (web3_accepting 0) config_omg fresh_updater
     [((OMG, ETH), Some (Finite (- 1)))] False =
   (Inr (Some ''0xreceipt''),
    \<lparr>updates_requested = 1,
     remote_calls = [(''setSanityRates'', [''0xd26114cd''], [- 1000000000000000000])]\<rparr>)"
proof -
  have prev: "get_previous_rates (web3_accepting 0) config_omg = Inr [(OMG, ETH) \<mapsto> Finite 0]"
    using convert_rate_zero by (rule get_previous_rates_accepting)
  have batch: "decided_batch [(OMG, ETH) \<mapsto> Finite 0] [((OMG, ETH), Some (Finite (- 1)))] False =
      Inr [((OMG, ETH), Some (Finite (- 1)))]"
    by (simp add: decided_batch_def get_previous_rate_def should_update_price_zero)
  have "update_prices (web3_accepting 0) config_omg fresh_updater
     [((OMG, ETH), Some (Finite (- 1)))] False =
     (case set_rates (web3_accepting 0) fresh_updater [((OMG, ETH), Some (Finite (- 1)))] of
              (Inr rs, s') \<Rightarrow> (Inr (Some rs), s'\<lparr>updates_requested := updates_requested s' + 1\<rparr>)
            | (Inl PreviousTransactionPending, s') \<Rightarrow> (Inr None, s')
            | (Inl e, s') \<Rightarrow> (Inl e, s'))"
    using prev batch by (rule update_prices_submit) simp
  moreover have "set_rates (web3_accepting 0) fresh_updater
      [((OMG, ETH), Some (Finite (- 1)))] =
      (Inr ''0xreceipt'',
       fresh_updater\<lparr>remote_calls :=
         [(SET_RATES_FUNCTION_NAME, [address OMG], [- 1000000000000000000])]\<rparr>)"
    by (simp add: set_rates_def convert_price_minus_one web3_accepting_def fresh_updater_def)
  ultimately show ?thesis
    by (simp add: fresh_updater_def SET_RATES_FUNCTION_NAME_def OMG_def)
qed

section \<open>Failure of the baseline fetch\<close>

lemma gather_failure:
  "Inl e \<in> set futures \<Longrightarrow> \<exists>e'. Inl e' \<in> set futures \<and> gather futures = Inl e'"
proof (induction futures)
  case Nil
  then show ?case by simp
next
  case (Cons f futures)
  show ?case
  proof (cases f)
    case (Inl e0)
    then show ?thesis by auto
  next
    case (Inr x)
    with Cons.prems have "Inl e \<in> set futures" by auto
    from Cons.IH [OF this] obtain e' where "Inl e' \<in> set futures" "gather futures = Inl e'"
      by blast
    then show ?thesis using Inr by auto
  qed
qed

lemma get_rate_unreachable:
  "call_local_function web3 GET_RATE_FUNCTION_NAME [address c] = Inl Web3ConnectionError \<Longrightarrow>
   get_rate web3 c = Inl Web3ConnectionError"
  by (simp add: get_rate_def format_coin_for_getter_def)

lemma get_previous_rates_failure:
  assumes "c \<in> set (coins cfg)" and "get_rate web3 c = Inl e"
  shows "\<exists>e' c'. c' \<in> set (coins cfg) \<and> get_rate web3 c' = Inl e' \<and>
           get_previous_rates web3 cfg = Inl e'"
proof -
  have "Inl e \<in> set (map (get_pair_price_future web3 cfg) (coins cfg))"
    using assms by (force simp: get_pair_price_future_def)
  from gather_failure [OF this] obtain e'
    where mem: "Inl e' \<in> set (map (get_pair_price_future web3 cfg) (coins cfg))"
      and g: "gather (map (get_pair_price_future web3 cfg) (coins cfg)) = Inl e'"
    by blast
  from mem obtain c' where "c' \<in> set (coins cfg)" "get_pair_price_future web3 cfg c' = Inl e'"
    by auto
  then have "c' \<in> set (coins cfg)" "get_rate web3 c' = Inl e'"
    by (auto simp: get_pair_price_future_def split: sum.splits)
  then show ?thesis using g by (auto simp: get_previous_rates_def)
qed

text \<open>
  C6.  If the read of the on-chain rate of one coin of the configuration fails with a
  connectivity error, \<open>_get_previous_rates\<close> raises an exception of one of the reads and
  returns no map, and \<open>update_prices\<close> raises it too, with the counter and the write
  calls as they were: nothing is submitted, with or without \<open>force\<close>.
\<close>

theorem baseline_fetch_aborts:
  assumes "c \<in> set (coins cfg)"
    and "call_local_function web3 GET_RATE_FUNCTION_NAME [address c] = Inl Web3ConnectionError"
  shows "\<exists>e c'. c' \<in> set (coins cfg) \<and> get_rate web3 c' = Inl e \<and>
           get_previous_rates web3 cfg = Inl e \<and>
           update_prices web3 cfg s coin_price_data force = (Inl e, s)"
proof -
  from assms(2) have "get_rate web3 c = Inl Web3ConnectionError"
    by (rule get_rate_unreachable)
  from get_previous_rates_failure [OF assms(1) this]
  obtain e c' where "c' \<in> set (coins cfg)" "get_rate web3 c' = Inl e"
    "get_previous_rates web3 cfg = Inl e" by blast
  then show ?thesis using update_prices_fetch_failure by blast
qed

theorem baseline_fetch_aborts_witness:
  "\<exists>e c'. c' \<in> set (coins config_omg_knc) \<and>
     get_rate (web3_unreachable (address KNC)) c' = Inl e \<and>
     get_previous_rates (web3_unreachable (address KNC)) config_omg_knc = Inl e \<and>
     update_prices (web3_unreachable (address KNC)) config_omg_knc fresh_updater
       [((OMG, ETH), Some (Finite 1))] False = (Inl e, fresh_updater)"
  using baseline_fetch_aborts [of KNC config_omg_knc "web3_unreachable (address KNC)"
      fresh_updater "[((OMG, ETH), Some (Finite 1))]" False]
  by (simp add: config_omg_knc_def web3_unreachable_def)

section \<open>Submission\<close>

lemma set_rates_counter:
  "updates_requested (snd (set_rates web3 s batch)) = updates_requested s"
  by (simp add: set_rates_def split: sum.splits)

lemma update_prices_counter:
  "updates_requested (snd (update_prices web3 cfg s coin_price_data force)) =
     (if \<exists>rs. fst (update_prices web3 cfg s coin_price_data force) = Inr (Some rs)
      then updates_requested s + 1 else updates_requested s)"
proof (cases "get_previous_rates web3 cfg")
  case (Inl e)
  then show ?thesis by (simp add: update_prices_fetch_failure)
next
  case (Inr previous_rates)
  show ?thesis
  proof (cases "decided_batch previous_rates coin_price_data force")
    case (Inl e)
    with Inr show ?thesis by (simp add: update_prices_decision_failure)
  next
    case batch: (Inr rates_for_update)
    show ?thesis
    proof (cases "rates_for_update = []")
      case True
      with Inr batch show ?thesis by (simp add: update_prices_empty)
    next
      case False
      obtain r s' where rs: "set_rates web3 s rates_for_update = (r, s')"
        by (cases "set_rates web3 s rates_for_update")
      then have "updates_requested s' = updates_requested s"
        using set_rates_counter [of web3 s rates_for_update] by simp
      then show ?thesis
        by (simp add: update_prices_submit [OF Inr batch False] rs
            split: sum.splits error.splits)
    qed
  qed
qed

lemma update_prices_receipt_iff:
  "fst (update_prices web3 cfg s coin_price_data force) = Inr (Some rs) \<longleftrightarrow>
     (\<exists>previous_rates rates_for_update.
        get_previous_rates web3 cfg = Inr previous_rates \<and>
        decided_batch previous_rates coin_price_data force = Inr rates_for_update \<and>
        rates_for_update \<noteq> [] \<and>
        fst (set_rates web3 s rates_for_update) = Inr rs)"
proof (cases "get_previous_rates web3 cfg")
  case (Inl e)
  then show ?thesis by (simp add: update_prices_fetch_failure)
next
  case (Inr previous_rates)
  show ?thesis
  proof (cases "decided_batch previous_rates coin_price_data force")
    case (Inl e)
    with Inr show ?thesis by (simp add: update_prices_decision_failure)
  next
    case batch: (Inr rates_for_update)
    show ?thesis
    proof (cases "rates_for_update = []")
      case True
      with Inr batch show ?thesis by (simp add: update_prices_empty)
    next
      case False
      obtain r s' where rs: "set_rates web3 s rates_for_update = (r, s')"
        by (cases "set_rates web3 s rates_for_update")
      show ?thesis
        using Inr batch False
        by (auto simp add: update_prices_submit [OF Inr batch False] rs
            split: sum.splits error.splits)
    qed
  qed
qed

lemma set_rates_call:
  "format_coin_prices_for_setter batch = Inr eth_args \<Longrightarrow>
   set_rates web3 s batch =
     (call_remote_function web3 SET_RATES_FUNCTION_NAME eth_args,
      s\<lparr>remote_calls := remote_calls s @ [(SET_RATES_FUNCTION_NAME, eth_args)]\<rparr>)"
  by (simp add: set_rates_def)

text \<open>
  C7.  When the write of the decided batch raises \<open>PreviousTransactionPending\<close>,
  \<open>update_prices\<close> returns \<open>None\<close>, the transport has received that one write and no
  other, and the counter of requested updates is unchanged.  In every cycle the counter
  grows by one exactly when \<open>update_prices\<close> returns a receipt, which it does exactly
  when \<open>set_rates\<close> has returned it; in every other cycle the counter is unchanged.
\<close>

theorem pending_transaction_not_resent:
  assumes "get_previous_rates web3 cfg = Inr previous_rates"
    and "decided_batch previous_rates coin_price_data force = Inr rates_for_update"
    and "rates_for_update \<noteq> []"
    and "format_coin_prices_for_setter rates_for_update = Inr eth_args"
    and "call_remote_function web3 SET_RATES_FUNCTION_NAME eth_args =
           Inl PreviousTransactionPending"
  shows "update_prices web3 cfg s coin_price_data force =
           (Inr None,
            s\<lparr>remote_calls := remote_calls s @ [(SET_RATES_FUNCTION_NAME, eth_args)]\<rparr>) \<and>
         updates_requested (snd (update_prices web3 cfg s coin_price_data force)) =
           updates_requested s \<and>
         (\<forall>s0 data f.
            updates_requested (snd (update_prices web3 cfg s0 data f)) =
              (if \<exists>rs. fst (update_prices web3 cfg s0 data f) = Inr (Some rs)
               then updates_requested s0 + 1 else updates_requested s0) \<and>
            (\<forall>rs. fst (update_prices web3 cfg s0 data f) = Inr (Some rs) \<longleftrightarrow>
               (\<exists>rates batch.
                  get_previous_rates web3 cfg = Inr rates \<and>
                  decided_batch rates data f = Inr batch \<and> batch \<noteq> [] \<and>
                  fst (set_rates web3 s0 batch) = Inr rs)))"
proof -
  have "set_rates web3 s rates_for_update =
     (Inl PreviousTransactionPending,
      s\<lparr>remote_calls := remote_calls s @ [(SET_RATES_FUNCTION_NAME, eth_args)]\<rparr>)"
    using set_rates_call [OF assms(4), of web3 s] by (simp add: assms(5))
  then have r: "update_prices web3 cfg s coin_price_data force =
           (Inr None,
            s\<lparr>remote_calls := remote_calls s @ [(SET_RATES_FUNCTION_NAME, eth_args)]\<rparr>)"
    by (simp add: update_prices_submit [OF assms(1,2,3)])
  show ?thesis
    using update_prices_counter update_prices_receipt_iff by (simp add: r)
qed

theorem pending_transaction_not_resent_witness:
  "update_prices web3_pending config_omg fresh_updater [((OMG, ETH), Some (Finite 1))] False =
     (Inr None,
      fresh_updater\<lparr>remote_calls := remote_calls fresh_updater @
         [(SET_RATES_FUNCTION_NAME, [address OMG], [1000000000000000000])]\<rparr>) \<and>
   updates_requested (snd (update_prices web3_pending config_omg fresh_updater
      [((OMG, ETH), Some (Finite 1))] False)) = updates_requested fresh_updater \<and>
   (\<forall>s0 data f.
      updates_requested (snd (update_prices web3_pending config_omg s0 data f)) =
        (if \<exists>rs. fst (update_prices web3_pending config_omg s0 data f) = Inr (Some rs)
         then updates_requested s0 + 1 else updates_requested s0) \<and>
      (\<forall>rs. fst (update_prices web3_pending config_omg s0 data f) = Inr (Some rs) \<longleftrightarrow>
         (\<exists>rates batch.
            get_previous_rates web3_pending config_omg = Inr rates \<and>
            decided_batch rates data f = Inr batch \<and> batch \<noteq> [] \<and>
            fst (set_rates web3_pending s0 batch) = Inr rs)))"
proof -
  have 1: "get_previous_rates web3_pending config_omg = Inr [(OMG, ETH) \<mapsto> Finite 0]"
    by (rule get_previous_rates_pending)
  have 2: "decided_batch [(OMG, ETH) \<mapsto> Finite 0] [((OMG, ETH), Some (Finite 1))] False =
      Inr [((OMG, ETH), Some (Finite 1))]"
    by (simp add: decided_batch_def get_previous_rate_def should_update_price_zero)
  have 3: "[((OMG, ETH), Some (Finite 1))] \<noteq> []" by simp
  have 4: "format_coin_prices_for_setter [((OMG, ETH), Some (Finite 1))] =
      Inr ([address OMG], [1000000000000000000])"
    by (simp add: convert_price_one)
  have 5: "call_remote_function web3_pending SET_RATES_FUNCTION_NAME
      ([address OMG], [1000000000000000000]) = Inl PreviousTransactionPending"
    by (simp add: web3_pending_def)
  show ?thesis
    by (rule pending_transaction_not_resent [OF 1 2 3 4 5])
qed

lemma none_selected_usable:
  "none_selected previous_rates new_rates \<Longrightarrow> observations_usable previous_rates new_rates"
proof (induction new_rates)
  case Nil
  then show ?case by (simp add: observations_usable_def)
next
  case (Cons x new_rates)
  obtain c m price where x: "x = ((c, m), price)" by (metis surj_pair)
  from Cons.prems x
  have here: "should_update_price c m (previous_rates (c, m)) price = Inr False"
    and rest: "none_selected previous_rates new_rates"
    by (simp_all add: none_selected_def)
  have "price \<noteq> None"
  proof
    assume "price = None"
    with here show False by (simp add: should_update_price_no_price)
  qed
  moreover have "previous_rates (c, m) \<noteq> None"
  proof
    assume "previous_rates (c, m) = None"
    with here show False by (simp add: should_update_price_no_rate)
  qed
  ultimately show ?case
    using Cons.IH [OF rest] by (simp add: x observations_usable_def)
qed

lemma prepare_rates_for_update_empty_iff:
  "prepare_rates_for_update previous_rates new_rates = Inr [] \<longleftrightarrow>
   none_selected previous_rates new_rates"
proof
  assume empty: "prepare_rates_for_update previous_rates new_rates = Inr []"
  have usable: "observations_usable previous_rates new_rates"
  proof (rule ccontr)
    assume "\<not> observations_usable previous_rates new_rates"
    then have "prepare_rates_for_update previous_rates new_rates = Inl TypeError"
      by (rule prepare_rates_for_update_raises)
    with empty show False by simp
  qed
  from prepare_rates_for_update_filter [OF usable] empty
  have none: "filter (\<lambda>((c, m), price).
      should_update_price c m (previous_rates (c, m)) price = Inr True) new_rates = []"
    by simp
  have "\<forall>x \<in> set new_rates. (\<lambda>((c, m), price).
      should_update_price c m (previous_rates (c, m)) price = Inr False) x"
  proof
    fix x assume x: "x \<in> set new_rates"
    obtain c m price where xe: "x = ((c, m), price)" by (metis surj_pair)
    from usable x xe obtain r p where rp: "previous_rates (c, m) = Some r" "price = Some p"
      by (auto simp: observations_usable_def list_all_iff)
    obtain b where b: "should_update_price c m (Some r) (Some p) = Inr b"
      using should_update_price_returns by blast
    from none x xe have "should_update_price c m (previous_rates (c, m)) price \<noteq> Inr True"
      by (auto simp: filter_empty_conv)
    with b rp have "should_update_price c m (previous_rates (c, m)) price = Inr False"
      by (cases b) simp_all
    then show "(\<lambda>((c, m), price).
        should_update_price c m (previous_rates (c, m)) price = Inr False) x"
      by (simp add: xe)
  qed
  then show "none_selected previous_rates new_rates"
    by (simp add: none_selected_def list_all_iff)
next
  assume none: "none_selected previous_rates new_rates"
  then have usable: "observations_usable previous_rates new_rates"
    by (rule none_selected_usable)
  have "filter (\<lambda>((c, m), price).
      should_update_price c m (previous_rates (c, m)) price = Inr True) new_rates = []"
    using none by (auto simp: none_selected_def list_all_iff filter_empty_conv)
  with prepare_rates_for_update_filter [OF usable]
  show "prepare_rates_for_update previous_rates new_rates = Inr []" by simp
qed

text \<open>
  C8, amended.  Where the baseline fetch has returned, the list \<open>rates_for_update\<close> that
  \<open>update_prices\<close> tests is empty exactly when, without \<open>force\<close>, the decision step
  selects no observation, and with \<open>force\<close>, the price data is empty.  Then
  \<open>update_prices\<close> returns \<open>None\<close> and leaves the updater as it was: no write call
  reaches the transport and the counter is unchanged.
\<close>

theorem empty_batch_no_call:
  assumes "get_previous_rates web3 cfg = Inr previous_rates"
  shows "(decided_batch previous_rates coin_price_data force = Inr [] \<longleftrightarrow>
            (if force then coin_price_data = []
             else none_selected previous_rates coin_price_data)) \<and>
         ((if force then coin_price_data = []
           else none_selected previous_rates coin_price_data) \<longrightarrow>
            update_prices web3 cfg s coin_price_data force = (Inr None, s))"
proof (intro conjI impI)
  show iff: "decided_batch previous_rates coin_price_data force = Inr [] \<longleftrightarrow>
            (if force then coin_price_data = []
             else none_selected previous_rates coin_price_data)"
    using prepare_rates_for_update_empty_iff [of previous_rates coin_price_data]
    by (simp add: decided_batch_def)
  assume "if force then coin_price_data = []
          else none_selected previous_rates coin_price_data"
  with iff have "decided_batch previous_rates coin_price_data force = Inr []"
    by simp
  with assms show "update_prices web3 cfg s coin_price_data force = (Inr None, s)"
    by (rule update_prices_empty)
qed

theorem empty_batch_no_call_witness:
  "decided_batch [(OMG, ETH) \<mapsto> Finite 100] [((OMG, ETH), Some (Finite 104))] False =
     Inr [] \<and>
   update_prices (web3_accepting 100000000000000000000) config_omg fresh_updater
     [((OMG, ETH), Some (Finite 104))] False = (Inr None, fresh_updater)"
proof -
  have 1: "get_previous_rates (web3_accepting 100000000000000000000) config_omg =
      Inr [(OMG, ETH) \<mapsto> Finite 100]"
    using convert_rate_100 by (rule get_previous_rates_accepting)
  have 2: "if False then [((OMG, ETH), Some (Finite 104))] = []
      else none_selected [(OMG, ETH) \<mapsto> Finite 100] [((OMG, ETH), Some (Finite 104))]"
    by (simp add: none_selected_def should_update_price_104)
  from empty_batch_no_call [OF 1, of "[((OMG, ETH), Some (Finite 104))]" False fresh_updater] 2
  show ?thesis by blast
qed

text \<open>
  C8 as stated fails in its second half: the result of the no-op is \<open>None\<close>, and so is
  the result of a submission that met a pending transaction, after the write call was
  made.
\<close>

theorem noop_result_not_distinct:
  "update_prices web3_pending config_omg fresh_updater [] False = (Inr None, fresh_updater) \<and>
   fst (update_prices web3_pending config_omg fresh_updater
          [((OMG, ETH), Some (Finite 1))] False) = Inr None \<and>
   remote_calls (snd (update_prices web3_pending config_omg fresh_updater
          [((OMG, ETH), Some (Finite 1))] False)) =
     [(''setSanityRates'', [''0xd26114cd''], [1000000000000000000])]"
proof -
  have 1: "get_previous_rates web3_pending config_omg = Inr [(OMG, ETH) \<mapsto> Finite 0]"
    by (rule get_previous_rates_pending)
  have "decided_batch [(OMG, ETH) \<mapsto> Finite 0] [] False = Inr []"
    by (simp add: decided_batch_def)
  with 1 have a: "update_prices web3_pending config_omg fresh_updater [] False =
      (Inr None, fresh_updater)"
    by (rule update_prices_empty)
  have 2: "decided_batch [(OMG, ETH) \<mapsto> Finite 0] [((OMG, ETH), Some (Finite 1))] False =
      Inr [((OMG, ETH), Some (Finite 1))]"
    by (simp add: decided_batch_def get_previous_rate_def should_update_price_zero)
  have "set_rates web3_pending fresh_updater [((OMG, ETH), Some (Finite 1))] =
      (Inl PreviousTransactionPending,
       fresh_updater\<lparr>remote_calls :=
         [(SET_RATES_FUNCTION_NAME, [address OMG], [1000000000000000000])]\<rparr>)"
    by (simp add: set_rates_def convert_price_one web3_pending_def fresh_updater_def)
  then have b: "update_prices web3_pending config_omg fresh_updater
      [((OMG, ETH), Some (Finite 1))] False =
      (Inr None, fresh_updater\<lparr>remote_calls :=
         [(SET_RATES_FUNCTION_NAME, [address OMG], [1000000000000000000])]\<rparr>)"
    by (simp add: update_prices_submit [OF 1 2])
  from b have c: "fst (update_prices web3_pending config_omg fresh_updater
      [((OMG, ETH), Some (Finite 1))] False) = Inr None"
    and d: "remote_calls (snd (update_prices web3_pending config_omg fresh_updater
      [((OMG, ETH), Some (Finite 1))] False)) =
      [(SET_RATES_FUNCTION_NAME, [address OMG], [1000000000000000000])]"
    by simp_all
  have "SET_RATES_FUNCTION_NAME = ''setSanityRates''" "address OMG = ''0xd26114cd''"
    by (simp_all add: SET_RATES_FUNCTION_NAME_def OMG_def)
  with a c d show ?thesis by simp
qed

text \<open>
  The test of \<open>rates_for_update\<close> comes before the serialization drops the falsy
  prices.  A non-empty batch whose prices are all falsy passes the test: the write call
  is made with two empty arrays, and the counter grows.
\<close>

lemma falsy_only_batch_is_sent:
  "update_prices (web3_accepting 0) config_omg fresh_updater [((OMG, ETH), None)] True =
   (Inr (Some ''0xreceipt''),
    \<lparr>updates_requested = 1, remote_calls = [(''setSanityRates'', [], [])]\<rparr>)"
proof -
  have prev: "get_previous_rates (web3_accepting 0) config_omg = Inr [(OMG, ETH) \<mapsto> Finite 0]"
    using convert_rate_zero by (rule get_previous_rates_accepting)
  have batch: "decided_batch [(OMG, ETH) \<mapsto> Finite 0] [((OMG, ETH), None)] True =
      Inr [((OMG, ETH), None)]"
    by (simp add: decided_batch_def)
  have "set_rates (web3_accepting 0) fresh_updater [((OMG, ETH), None)] =
      (Inr ''0xreceipt'',
       fresh_updater\<lparr>remote_calls := [(SET_RATES_FUNCTION_NAME, [], [])]\<rparr>)"
    by (simp add: set_rates_def web3_accepting_def fresh_updater_def)
  then have "update_prices (web3_accepting 0) config_omg fresh_updater
      [((OMG, ETH), None)] True =
      (Inr (Some ''0xreceipt''),
       fresh_updater\<lparr>remote_calls := [(SET_RATES_FUNCTION_NAME, [], [])],
         updates_requested := 1\<rparr>)"
    by (simp add: update_prices_submit [OF prev batch] fresh_updater_def)
  then show ?thesis
    by (simp add: fresh_updater_def SET_RATES_FUNCTION_NAME_def)
qed

section \<open>Forced updates\<close>

lemma ContractUpdaterMonitor_act_state:
  "snd (ContractUpdaterMonitor_act force web3 cfg s data) =
   snd (update_prices web3 cfg s data force)"
  by (cases "update_prices web3 cfg s data force")
     (simp add: ContractUpdaterMonitor_act_def PrintValuesMonitor_act_def split: sum.splits)

lemma ContractUpdaterMonitor_act_raises:
  "update_prices web3 cfg s data force = (Inl e, s') \<Longrightarrow>
   ContractUpdaterMonitor_act force web3 cfg s data = (Inl e, s')"
  by (simp add: ContractUpdaterMonitor_act_def PrintValuesMonitor_act_def)

text \<open>
  C10.  \<open>ContractUpdaterMonitorForce\<close> calls \<open>update_prices\<close> with \<open>force=True\<close>.  A
  connectivity error in the read of one coin's rate still aborts the cycle, with the
  updater unchanged.  When the reads succeed and the serialization of the non-empty data
  returns, one write call is made with the arrays of the whole data: the addresses and
  converted prices of all observations with a truthy price, whatever the fetched rates
  and the thresholds are.
\<close>

theorem forced_update:
  "(c \<in> set (coins cfg) \<and>
    call_local_function web3 GET_RATE_FUNCTION_NAME [address c] = Inl Web3ConnectionError \<longrightarrow>
      (\<exists>e. ContractUpdaterMonitorForce_act web3 cfg s data = (Inl e, s))) \<and>
   (get_previous_rates web3 cfg = Inr previous_rates \<and> data \<noteq> [] \<and>
    format_coin_prices_for_setter data = Inr (sources, rates) \<longrightarrow>
      remote_calls (snd (ContractUpdaterMonitorForce_act web3 cfg s data)) =
        remote_calls s @ [(SET_RATES_FUNCTION_NAME, sources, rates)] \<and>
      sources = map (\<lambda>((c, m), price). address c) (included data) \<and>
      map (\<lambda>(pair, price). convert_price_to_contract_units price) (included data) =
        map Inr rates)"
proof (intro conjI impI)
  assume "c \<in> set (coins cfg) \<and>
    call_local_function web3 GET_RATE_FUNCTION_NAME [address c] = Inl Web3ConnectionError"
  then have "c \<in> set (coins cfg)" "get_rate web3 c = Inl Web3ConnectionError"
    by (simp_all add: get_rate_unreachable)
  from get_previous_rates_failure [OF this]
  obtain e where "get_previous_rates web3 cfg = Inl e" by blast
  then have "update_prices web3 cfg s data True = (Inl e, s)"
    by (rule update_prices_fetch_failure)
  then show "\<exists>e. ContractUpdaterMonitorForce_act web3 cfg s data = (Inl e, s)"
    by (simp add: ContractUpdaterMonitorForce_act_def ContractUpdaterMonitor_act_raises)
next
  assume a: "get_previous_rates web3 cfg = Inr previous_rates \<and> data \<noteq> [] \<and>
    format_coin_prices_for_setter data = Inr (sources, rates)"
  then have prev: "get_previous_rates web3 cfg = Inr previous_rates"
    and ne: "data \<noteq> []"
    and fmt: "format_coin_prices_for_setter data = Inr (sources, rates)"
    by simp_all
  have batch: "decided_batch previous_rates data True = Inr data"
    by (simp add: decided_batch_def)
  have "remote_calls (snd (update_prices web3 cfg s data True)) =
        remote_calls s @ [(SET_RATES_FUNCTION_NAME, sources, rates)]"
    by (simp add: update_prices_submit [OF prev batch ne] set_rates_call [OF fmt]
        split: sum.splits error.splits)
  then show "remote_calls (snd (ContractUpdaterMonitorForce_act web3 cfg s data)) =
        remote_calls s @ [(SET_RATES_FUNCTION_NAME, sources, rates)]"
    by (simp add: ContractUpdaterMonitorForce_act_def ContractUpdaterMonitor_act_state)
  from format_coin_prices_for_setter_arrays [OF fmt]
  show "sources = map (\<lambda>((c, m), price). address c) (included data)"
    and "map (\<lambda>(pair, price). convert_price_to_contract_units price) (included data) =
        map Inr rates"
    by simp_all
qed

theorem forced_update_witness:
  "(\<exists>e. ContractUpdaterMonitorForce_act (web3_unreachable (address KNC)) config_omg_knc
          fresh_updater [((OMG, ETH), Some (Finite 104))] = (Inl e, fresh_updater)) \<and>
   remote_calls (snd (ContractUpdaterMonitorForce_act (web3_accepting 100000000000000000000)
       config_omg fresh_updater [((OMG, ETH), Some (Finite 104)), ((KNC, ETH), None)])) =
     remote_calls fresh_updater @
       [(SET_RATES_FUNCTION_NAME, [address OMG], [104000000000000000000])] \<and>
   [address OMG] = map (\<lambda>((c, m), price). address c)
     (included [((OMG, ETH), Some (Finite 104)), ((KNC, ETH), None)]) \<and>
   map (\<lambda>(pair, price). convert_price_to_contract_units price)
     (included [((OMG, ETH), Some (Finite 104)), ((KNC, ETH), None)]) =
     map Inr [104000000000000000000]"
proof -
  have 1: "KNC \<in> set (coins config_omg_knc) \<and>
    call_local_function (web3_unreachable (address KNC)) GET_RATE_FUNCTION_NAME [address KNC] =
      Inl Web3ConnectionError"
    by (simp add: config_omg_knc_def web3_unreachable_def)
  have 2: "get_previous_rates (web3_accepting 100000000000000000000) config_omg =
      Inr [(OMG, ETH) \<mapsto> Finite 100] \<and>
    [((OMG, ETH), Some (Finite 104)), ((KNC, ETH), None)] \<noteq> [] \<and>
    format_coin_prices_for_setter [((OMG, ETH), Some (Finite 104)), ((KNC, ETH), None)] =
      Inr ([address OMG], [104000000000000000000])"
    using get_previous_rates_accepting [OF convert_rate_100]
    by (simp add: convert_price_104)
  from 1 forced_update [of KNC config_omg_knc "web3_unreachable (address KNC)" fresh_updater
      "[((OMG, ETH), Some (Finite 104))]"]
  have "\<exists>e. ContractUpdaterMonitorForce_act (web3_unreachable (address KNC)) config_omg_knc
          fresh_updater [((OMG, ETH), Some (Finite 104))] = (Inl e, fresh_updater)"
    by blast
  moreover from 2 forced_update [of _ config_omg "web3_accepting 100000000000000000000"
      fresh_updater "[((OMG, ETH), Some (Finite 104)), ((KNC, ETH), None)]"
      "[(OMG, ETH) \<mapsto> Finite 100]" "[address OMG]" "[104000000000000000000]"]
  have "remote_calls (snd (ContractUpdaterMonitorForce_act (web3_accepting 100000000000000000000)
       config_omg fresh_updater [((OMG, ETH), Some (Finite 104)), ((KNC, ETH), None)])) =
     remote_calls fresh_updater @
       [(SET_RATES_FUNCTION_NAME, [address OMG], [104000000000000000000])] \<and>
   [address OMG] = map (\<lambda>((c, m), price). address c)
     (included [((OMG, ETH), Some (Finite 104)), ((KNC, ETH), None)]) \<and>
   map (\<lambda>(pair, price). convert_price_to_contract_units price)
     (included [((OMG, ETH), Some (Finite 104)), ((KNC, ETH), None)]) =
     map Inr [104000000000000000000]"
    by blast
  ultimately show ?thesis by blast
qed

end
